theory Spec2Isabelle
  imports Complex_Main "HOL-Library.Sublist"
begin

section \<open>Strings and characters\<close>

text \<open>
  Python strings are modelled as \<^typ>\<open>string\<close>: one \<^typ>\<open>char\<close> per code point, restricted
  to the code points below 256 (the Latin-1 range). File contents (Python \<open>bytes\<close>) are
  lists of \<^typ>\<open>char\<close> as well. The character classes below are the ones of Python's
  \<open>re\<close> and \<open>str\<close> on that range.
\<close>

type_synonym bytes = "char list"

definition ord :: "char \<Rightarrow> nat" where
  "ord c = of_char c"

definition in_range :: "char \<Rightarrow> char \<Rightarrow> char \<Rightarrow> bool" where
  "in_range lo hi c = (ord lo \<le> ord c \<and> ord c \<le> ord hi)"

text \<open>\<open>\d\<close>: the decimal digits; below 256 these are \<open>0\<close> to \<open>9\<close>.\<close>

definition is_digit :: "char \<Rightarrow> bool" where
  "is_digit c = in_range (CHR ''0'') (CHR ''9'') c"

text \<open>\<open>str.isalnum\<close> below 256, and \<open>\w\<close>: an alphanumeric character or the underscore.\<close>

definition is_alnum :: "char \<Rightarrow> bool" where
  "is_alnum c =
     (is_digit c \<or> in_range (CHR ''A'') (CHR ''Z'') c \<or> in_range (CHR ''a'') (CHR ''z'') c
      \<or> ord c \<in> {0xAA, 0xB2, 0xB3, 0xB5, 0xB9, 0xBA, 0xBC, 0xBD, 0xBE}
      \<or> (0xC0 \<le> ord c \<and> ord c \<le> 0xD6) \<or> (0xD8 \<le> ord c \<and> ord c \<le> 0xF6)
      \<or> (0xF8 \<le> ord c \<and> ord c \<le> 0xFF))"

definition is_word :: "char \<Rightarrow> bool" where
  "is_word c = (is_alnum c \<or> c = CHR ''_'')"

text \<open>\<open>str.isspace\<close> below 256, and \<open>\s\<close>.\<close>

definition is_space :: "char \<Rightarrow> bool" where
  "is_space c =
     ((9 \<le> ord c \<and> ord c \<le> 13) \<or> (28 \<le> ord c \<and> ord c \<le> 32) \<or> ord c = 0x85 \<or> ord c = 0xA0)"

text \<open>\<open>str.lower\<close> below 256.\<close>

definition lower_char :: "char \<Rightarrow> char" where
  "lower_char c =
     (if in_range (CHR ''A'') (CHR ''Z'') c \<or> (0xC0 \<le> ord c \<and> ord c \<le> 0xD6)
          \<or> (0xD8 \<le> ord c \<and> ord c \<le> 0xDE)
      then char_of (ord c + 32) else c)"

definition lower :: "string \<Rightarrow> string" where
  "lower s = map lower_char s"

definition strip :: "string \<Rightarrow> string" where
  "strip s = rev (dropWhile is_space (rev (dropWhile is_space s)))"

text \<open>The text after the last occurrence of a separator (\<open>rsplit(sep, 1)[1]\<close>,
  \<open>split(sep)[-1]\<close>, \<open>os.path.basename\<close>); the whole string when there is none.\<close>

definition after_last :: "char \<Rightarrow> string \<Rightarrow> string" where
  "after_last sep s = rev (takeWhile (\<lambda>c. c \<noteq> sep) (rev s))"

section \<open>Regular expressions of the helpers\<close>

text \<open>
  The patterns of \<open>utils/helpers.py\<close> are sequences of character classes with a fixed
  count, an optional class, a greedy repetition and the word boundary \<open>\b\<close>. A match is
  searched as \<open>re\<close> does: greedy alternatives first, backtracking to shorter ones.
\<close>

datatype citem = CChar char | CRange char char | CDigit | CSpace

fun item_matches :: "citem \<Rightarrow> char \<Rightarrow> bool" where
  "item_matches (CChar a) c = (c = a)"
| "item_matches (CRange lo hi) c = in_range lo hi c"
| "item_matches CDigit c = is_digit c"
| "item_matches CSpace c = is_space c"

definition cls_matches :: "citem list \<Rightarrow> char \<Rightarrow> bool" where
  "cls_matches cls c = list_ex (\<lambda>i. item_matches i c) cls"

datatype atom =
    WordBoundary
  | Exactly nat "citem list"
  | Optional "citem list"
  | AtLeast nat "citem list"

type_synonym pattern = "atom list"

text \<open>\<open>re.search(cls, s)\<close> for a pattern that is one character class: scan from the left.\<close>

fun re_search_cls :: "citem list \<Rightarrow> string \<Rightarrow> bool" where
  "re_search_cls cls [] = False"
| "re_search_cls cls (c # cs) = (if cls_matches cls c then True else re_search_cls cls cs)"

text \<open>\<open>\b\<close> between the character before the position (none at the start) and the rest of
  the text: exactly one side is a word character.\<close>

definition at_boundary :: "char option \<Rightarrow> string \<Rightarrow> bool" where
  "at_boundary prev rest =
     ((case prev of None \<Rightarrow> False | Some p \<Rightarrow> is_word p)
        \<noteq> (case rest of [] \<Rightarrow> False | c # _ \<Rightarrow> is_word c))"

definition prev_after :: "char option \<Rightarrow> string \<Rightarrow> char option" where
  "prev_after prev taken = (if taken = [] then prev else Some (last taken))"

fun first_some :: "'a option list \<Rightarrow> 'a option" where
  "first_some [] = None"
| "first_some (None # xs) = first_some xs"
| "first_some (Some x # xs) = Some x"

text \<open>The number of characters the pattern consumes when matched at the start of \<open>rest\<close>,
  \<open>None\<close> when it does not match there.\<close>

fun match_here :: "pattern \<Rightarrow> char option \<Rightarrow> string \<Rightarrow> nat option" where
  "match_here [] prev rest = Some 0"
| "match_here (WordBoundary # as) prev rest =
     (if at_boundary prev rest then match_here as prev rest else None)"
| "match_here (Exactly n cls # as) prev rest =
     (if n \<le> length rest \<and> list_all (cls_matches cls) (take n rest)
      then map_option (\<lambda>k. n + k) (match_here as (prev_after prev (take n rest)) (drop n rest))
      else None)"
| "match_here (Optional cls # as) prev rest =
     (case rest of
        [] \<Rightarrow> match_here as prev rest
      | c # cs \<Rightarrow>
          if cls_matches cls c
          then (case match_here as (Some c) cs of
                  Some k \<Rightarrow> Some (Suc k)
                | None \<Rightarrow> match_here as prev rest)
          else match_here as prev rest)"
| "match_here (AtLeast n cls # as) prev rest =
     first_some
       (map (\<lambda>j. map_option (\<lambda>k. j + k)
                    (match_here as (prev_after prev (take j rest)) (drop j rest)))
            (rev [n ..< Suc (length (takeWhile (cls_matches cls) rest))]))"

text \<open>\<open>re.finditer\<close>: the non-overlapping matches from left to right, each as
  (start, end, matched text). After an empty match the scan moves on by one character.\<close>

function finditer_from :: "pattern \<Rightarrow> char option \<Rightarrow> string \<Rightarrow> nat \<Rightarrow> (nat \<times> nat \<times> string) list" where
  "finditer_from pat prev [] pos =
     (case match_here pat prev [] of
        None \<Rightarrow> []
      | Some n \<Rightarrow> [(pos, pos + n, [])])"
| "finditer_from pat prev (c # cs) pos =
     (case match_here pat prev (c # cs) of
        None \<Rightarrow> finditer_from pat (Some c) cs (Suc pos)
      | Some n \<Rightarrow>
          (pos, pos + n, take n (c # cs)) #
            (if n = 0 then finditer_from pat (Some c) cs (Suc pos)
             else finditer_from pat (prev_after prev (take n (c # cs))) (drop n (c # cs)) (pos + n)))"
  by pat_completeness auto
termination
  by (relation "measure (\<lambda>(pat, prev, rest, pos). length rest)") auto

definition finditer :: "pattern \<Rightarrow> string \<Rightarrow> (nat \<times> nat \<times> string) list" where
  "finditer pat text = finditer_from pat None text 0"

text \<open>\<open>str.replace(old, new)\<close>: every non-overlapping occurrence from the left; an empty
  \<open>old\<close> puts \<open>new\<close> before every character and at the end.\<close>

function str_replace :: "string \<Rightarrow> string \<Rightarrow> string \<Rightarrow> string" where
  "str_replace [] old new = (if old = [] then new else [])"
| "str_replace (c # cs) old new =
     (if old = [] then new @ c # str_replace cs old new
      else if prefix old (c # cs) then new @ str_replace (drop (length old) (c # cs)) old new
      else c # str_replace cs old new)"
  by pat_completeness auto
termination
  by (relation "measure (\<lambda>(s, old, new). length s)") auto

section \<open>utils/helpers.py\<close>

definition upper_cls :: "citem list" where
  "upper_cls = [CRange (CHR ''A'') (CHR ''Z'')]"

definition lower_cls :: "citem list" where
  "lower_cls = [CRange (CHR ''a'') (CHR ''z'')]"

definition digit_cls :: "citem list" where
  "digit_cls = [CDigit]"

text \<open>The characters of the class \<open>[!@#$%^&*(),.?":{}|<>]\<close>.\<close>

definition special_characters :: string where
  "special_characters = ''!@#$%^&*(),.?'' @ [CHR 0x22] @ '':{}|<>''"

definition special_cls :: "citem list" where
  "special_cls = map CChar special_characters"

definition validate_password_strength :: "string \<Rightarrow> bool" where
  "validate_password_strength password =
     (if length password < 8 then False
      else if \<not> re_search_cls upper_cls password then False
      else if \<not> re_search_cls lower_cls password then False
      else if \<not> re_search_cls digit_cls password then False
      else if \<not> re_search_cls special_cls password then False
      else True)"

record redaction_entry =
  e_type :: string
  e_original :: string
  e_start :: nat
  e_end :: nat

datatype redact_result = Unredacted string | Redacted string "redaction_entry list"

definition ssn_pattern :: pattern where
  "ssn_pattern =
     [WordBoundary, Exactly 3 [CDigit], Exactly 1 [CChar (CHR ''-'')], Exactly 2 [CDigit],
      Exactly 1 [CChar (CHR ''-'')], Exactly 4 [CDigit], WordBoundary]"

definition phone_pattern :: pattern where
  "phone_pattern =
     [WordBoundary, Exactly 3 [CDigit], Optional [CChar (CHR ''-''), CChar (CHR ''.'')],
      Exactly 3 [CDigit], Optional [CChar (CHR ''-''), CChar (CHR ''.'')],
      Exactly 4 [CDigit], WordBoundary]"

definition email_pattern :: pattern where
  "email_pattern =
     [WordBoundary,
      AtLeast 1 ([CRange (CHR ''A'') (CHR ''Z''), CRange (CHR ''a'') (CHR ''z''),
                  CRange (CHR ''0'') (CHR ''9'')] @ map CChar ''._%+-''),
      Exactly 1 [CChar (CHR ''@'')],
      AtLeast 1 ([CRange (CHR ''A'') (CHR ''Z''), CRange (CHR ''a'') (CHR ''z''),
                  CRange (CHR ''0'') (CHR ''9'')] @ map CChar ''.-''),
      Exactly 1 [CChar (CHR ''.'')],
      AtLeast 2 [CRange (CHR ''A'') (CHR ''Z''), CChar (CHR ''|''), CRange (CHR ''a'') (CHR ''z'')],
      WordBoundary]"

definition credit_card_pattern :: pattern where
  "credit_card_pattern =
     [WordBoundary, Exactly 4 [CDigit], Optional [CChar (CHR ''-''), CSpace],
      Exactly 4 [CDigit], Optional [CChar (CHR ''-''), CSpace],
      Exactly 4 [CDigit], Optional [CChar (CHR ''-''), CSpace],
      Exactly 4 [CDigit], WordBoundary]"

definition patterns :: "(string \<times> pattern) list" where
  "patterns =
     [(''ssn'', ssn_pattern), (''phone'', phone_pattern), (''email'', email_pattern),
      (''credit_card'', credit_card_pattern)]"

text \<open>The inner loop of \<open>redact_text\<close>: for each match, record it and replace every
  occurrence of the matched text in the current text.\<close>

fun apply_matches ::
  "string \<Rightarrow> string \<Rightarrow> (nat \<times> nat \<times> string) list \<Rightarrow> string \<times> redaction_entry list
     \<Rightarrow> string \<times> redaction_entry list" where
  "apply_matches pattern_name redaction_type [] acc = acc"
| "apply_matches pattern_name redaction_type ((s, e, g) # ms) (redacted_text, redactions_made) =
     apply_matches pattern_name redaction_type ms
       (str_replace redacted_text g redaction_type,
        redactions_made @ [\<lparr>e_type = pattern_name, e_original = g, e_start = s, e_end = e\<rparr>])"

text \<open>The outer loop: the matches of a pattern are those in the text as it is when the
  pattern's turn comes.\<close>

fun redact_loop ::
  "(string \<times> pattern) list \<Rightarrow> string \<Rightarrow> string \<times> redaction_entry list
     \<Rightarrow> string \<times> redaction_entry list" where
  "redact_loop [] redaction_type acc = acc"
| "redact_loop ((pattern_name, pat) # ps) redaction_type (redacted_text, redactions_made) =
     redact_loop ps redaction_type
       (apply_matches pattern_name redaction_type (finditer pat redacted_text)
          (redacted_text, redactions_made))"

definition redact_text :: "string \<Rightarrow> string \<Rightarrow> redact_result" where
  "redact_text text redaction_type =
     (if text = [] then Unredacted text
      else case redact_loop patterns redaction_type (text, []) of
             (redacted_text, redactions_made) \<Rightarrow> Redacted redacted_text redactions_made)"


section \<open>models.py\<close>

text \<open>JSON values: request bodies, response bodies and the details of audit entries.
  \<open>json.dumps\<close> of the details is kept as the value it serialises.\<close>

datatype jval =
    JNull
  | JBool bool
  | JNum int
  | JFloat real
  | JStr string
  | JList "jval list"
  | JObj "(string \<times> jval) list"

record user =
  u_id :: nat
  u_username :: string
  u_email :: string
  u_password_hash :: string
  u_role :: string
  u_is_active :: bool
  u_created_at :: "nat option"
  u_last_login :: "nat option"

record document =
  d_id :: nat
  d_filename :: string
  d_original_filename :: string
  d_file_path :: string
  d_file_size :: nat
  d_file_type :: string
  d_content_hash :: string
  d_uploaded_at :: "nat option"
  d_user_id :: nat
  d_case_number :: string
  d_tags :: string
  d_description :: string
  d_is_processed :: bool
  d_processing_status :: string

record document_summary =
  s_id :: nat
  s_document_id :: nat
  s_summary_type :: string
  s_content :: string
  s_confidence_score :: real
  s_created_at :: "nat option"
  s_processing_time :: real

record document_redaction =
  r_id :: nat
  r_document_id :: nat
  r_redaction_type :: string
  r_start_position :: nat
  r_end_position :: nat
  r_original_text :: string
  r_redacted_text :: string
  r_reason :: string
  r_created_at :: "nat option"
  r_applied_by :: nat

record document_timeline =
  t_id :: nat
  t_document_id :: nat
  t_event_date :: nat
  t_event_type :: string
  t_event_description :: string
  t_confidence_score :: real
  t_extracted_at :: "nat option"

record audit_log =
  a_id :: nat
  a_user_id :: "nat option"
  a_action :: string
  a_resource_type :: string
  a_resource_id :: "string option"
  a_details :: "jval option"
  a_ip_address :: "string option"
  a_user_agent :: "string option"
  a_timestamp :: "nat option"
  a_session_id :: "string option"

record chat_analysis =
  c_id :: nat
  c_user_id :: nat
  c_chat_content :: string
  c_analysis_result :: jval
  c_content_hash :: string
  c_created_at :: "nat option"

text \<open>The database tables, each in insertion order, and the upload directory's files
  (path, content, modification time).\<close>

record system =
  users :: "user list"
  documents :: "document list"
  summaries :: "document_summary list"
  redactions :: "document_redaction list"
  timelines :: "document_timeline list"
  audit_logs :: "audit_log list"
  chat_analyses :: "chat_analysis list"
  disk :: "(string \<times> bytes \<times> nat) list"

text \<open>What the handlers take from libraries and configuration: the digests of
  \<open>hashlib\<close>, the password hashing of \<open>werkzeug\<close>, \<open>json.loads\<close> (\<open>None\<close> when it raises),
  \<open>datetime.isoformat\<close> and \<open>fromisoformat\<close>, the token of \<open>flask_jwt_extended\<close>, the
  readers of PDF, DOCX and UTF-8 text (\<open>None\<close> when they raise), the placeholder analysers
  of \<open>routes/processing.py\<close> and \<open>routes/analysis.py\<close> (their results are arbitrary here),
  the regular expressions a caller supplies for a custom redaction, and the application's
  configuration. Times are in seconds.\<close>

record env =
  sha256_hexdigest :: "bytes \<Rightarrow> string"
  md5_hexdigest :: "bytes \<Rightarrow> string"
  generate_password_hash :: "string \<Rightarrow> string"
  check_password_hash :: "string \<Rightarrow> string \<Rightarrow> bool"
  json_loads :: "string \<Rightarrow> jval option"
  isoformat :: "nat \<Rightarrow> string"
  create_access_token :: "nat \<Rightarrow> string \<Rightarrow> string \<Rightarrow> string"
  format_file_size :: "nat \<Rightarrow> string"
  extract_pdf_text :: "bytes \<Rightarrow> string option"
  extract_docx_text :: "bytes \<Rightarrow> string option"
  decode_utf8 :: "bytes \<Rightarrow> string option"
  fromisoformat :: "string \<Rightarrow> nat option"
  extract_timeline_events_basic :: "string \<Rightarrow> (nat \<times> string \<times> real) list"
  generate_summary_basic :: "string \<Rightarrow> string \<Rightarrow> string"
  analyze_chat_content_basic :: "string \<Rightarrow> (string \<times> jval) list"
  custom_redact :: "jval \<Rightarrow> string \<Rightarrow> string \<Rightarrow> (string \<times> redaction_entry list) option"
  MAX_CONTENT_LENGTH :: nat
  SECURE_UPLOAD_FOLDER :: string

text \<open>One HTTP request: the identity of its bearer token (none without a valid token),
  the client's address and headers, the clock and the UUID drawn while it is handled, the
  uploaded file (name and content), the form fields, the JSON body (none when it is not
  an object), the query arguments and the length of the whole request body (the
  \<open>Content-Length\<close>), of which an uploaded file is a part.\<close>

record request =
  jwt_identity :: "nat option"
  remote_addr :: "string option"
  user_agent :: "string option"
  x_session_id :: "string option"
  utcnow :: nat
  uuid4 :: string
  elapsed :: real
  file_part :: "(string \<times> bytes) option"
  form :: "(string \<times> string) list"
  json :: "(string \<times> jval) list option"
  args :: "(string \<times> string) list"
  content_length :: nat

record response =
  status :: nat
  body :: jval

definition jsonify :: "(string \<times> jval) list \<Rightarrow> nat \<Rightarrow> response" where
  "jsonify kvs code = \<lparr>status = code, body = JObj kvs\<rparr>"

definition error_response :: "string \<Rightarrow> nat \<Rightarrow> response" where
  "error_response msg code = jsonify [(''error'', JStr msg)] code"

definition response_field :: "response \<Rightarrow> string \<Rightarrow> jval option" where
  "response_field r key = (case body r of JObj kvs \<Rightarrow> map_of kvs key | _ \<Rightarrow> None)"

text \<open>\<open>@jwt_required()\<close>: without a valid token the handler is not entered.\<close>

definition missing_token :: response where
  "missing_token = jsonify [(''msg'', JStr ''Missing Authorization Header'')] 401"

text \<open>Python's truth value of a JSON value.\<close>

fun truthy :: "jval \<Rightarrow> bool" where
  "truthy JNull = False"
| "truthy (JBool b) = b"
| "truthy (JNum n) = (n \<noteq> 0)"
| "truthy (JFloat x) = (x \<noteq> 0)"
| "truthy (JStr s) = (s \<noteq> [])"
| "truthy (JList xs) = (xs \<noteq> [])"
| "truthy (JObj kvs) = (kvs \<noteq> [])"

definition opt_str :: "string option \<Rightarrow> jval" where
  "opt_str x = (case x of None \<Rightarrow> JNull | Some v \<Rightarrow> JStr v)"

definition opt_time :: "env \<Rightarrow> nat option \<Rightarrow> jval" where
  "opt_time ev x = (case x of None \<Rightarrow> JNull | Some v \<Rightarrow> JStr (isoformat ev v))"

text \<open>\<open>str(n)\<close> of a non-negative integer.\<close>

function str_nat :: "nat \<Rightarrow> string" where
  "str_nat n =
     (if n < 10 then [char_of (48 + n)]
      else str_nat (n div 10) @ [char_of (48 + n mod 10)])"
  by pat_completeness auto
termination
  by (relation "measure (\<lambda>n. n)") auto

declare str_nat.simps [simp del]

text \<open>The primary key the database gives a new row: one more than the largest in use.\<close>

definition next_id :: "nat list \<Rightarrow> nat" where
  "next_id ids = Suc (fold max ids 0)"

definition calculate_hash :: "env \<Rightarrow> bytes \<Rightarrow> string" where
  "calculate_hash ev file_content = sha256_hexdigest ev file_content"

definition verify_integrity :: "env \<Rightarrow> document \<Rightarrow> bytes \<Rightarrow> bool" where
  "verify_integrity ev doc file_content = (d_content_hash doc = calculate_hash ev file_content)"

text \<open>\<open>Document.to_dict\<close>; \<open>None\<close> when \<open>json.loads\<close> of the tags raises.\<close>

definition document_to_dict :: "env \<Rightarrow> document \<Rightarrow> jval option" where
  "document_to_dict ev doc =
     (case (if d_tags doc \<noteq> [] then json_loads ev (d_tags doc) else Some (JList [])) of
        None \<Rightarrow> None
      | Some tags \<Rightarrow>
          Some (JObj
            [(''id'', JNum (int (d_id doc))),
             (''filename'', JStr (d_filename doc)),
             (''original_filename'', JStr (d_original_filename doc)),
             (''file_size'', JNum (int (d_file_size doc))),
             (''file_type'', JStr (d_file_type doc)),
             (''content_hash'', JStr (d_content_hash doc)),
             (''uploaded_at'', opt_time ev (d_uploaded_at doc)),
             (''user_id'', JNum (int (d_user_id doc))),
             (''case_number'', JStr (d_case_number doc)),
             (''tags'', tags),
             (''description'', JStr (d_description doc)),
             (''is_processed'', JBool (d_is_processed doc)),
             (''processing_status'', JStr (d_processing_status doc))]))"

definition user_to_dict :: "env \<Rightarrow> user \<Rightarrow> jval" where
  "user_to_dict ev u =
     JObj [(''id'', JNum (int (u_id u))),
           (''username'', JStr (u_username u)),
           (''email'', JStr (u_email u)),
           (''role'', JStr (u_role u)),
           (''is_active'', JBool (u_is_active u)),
           (''created_at'', opt_time ev (u_created_at u)),
           (''last_login'', opt_time ev (u_last_login u))]"

definition timeline_to_dict :: "env \<Rightarrow> document_timeline \<Rightarrow> jval" where
  "timeline_to_dict ev t =
     JObj [(''id'', JNum (int (t_id t))),
           (''document_id'', JNum (int (t_document_id t))),
           (''event_date'', JStr (isoformat ev (t_event_date t))),
           (''event_type'', JStr (t_event_type t)),
           (''event_description'', JStr (t_event_description t)),
           (''page_number'', JNull),
           (''confidence_score'', JFloat (t_confidence_score t)),
           (''extracted_at'', opt_time ev (t_extracted_at t))]"

definition audit_to_dict :: "env \<Rightarrow> audit_log \<Rightarrow> jval" where
  "audit_to_dict ev a =
     JObj [(''id'', JNum (int (a_id a))),
           (''user_id'', (case a_user_id a of None \<Rightarrow> JNull | Some u \<Rightarrow> JNum (int u))),
           (''action'', JStr (a_action a)),
           (''resource_type'', JStr (a_resource_type a)),
           (''resource_id'', opt_str (a_resource_id a)),
           (''details'', (case a_details a of None \<Rightarrow> JObj [] | Some d \<Rightarrow> d)),
           (''ip_address'', opt_str (a_ip_address a)),
           (''user_agent'', opt_str (a_user_agent a)),
           (''timestamp'', opt_time ev (a_timestamp a)),
           (''session_id'', opt_str (a_session_id a))]"

section \<open>utils/helpers.py: audit trail and files\<close>

text \<open>\<open>log_audit_event\<close> builds one row (\<open>AuditLog(...)\<close>), adds it to the audit table and
  commits. The handler for a
  failure of the database (which the source swallows) is outside the model: the tables
  are lists and adding a row always succeeds.\<close>

definition new_audit_log ::
  "request \<Rightarrow> system \<Rightarrow> string \<Rightarrow> string \<Rightarrow> string option \<Rightarrow> nat option \<Rightarrow> jval option \<Rightarrow> audit_log" where
  "new_audit_log req s action resource_type resource_id user_id details =
     \<lparr>a_id = next_id (map a_id (audit_logs s)),
      a_user_id = user_id,
      a_action = action,
      a_resource_type = resource_type,
      a_resource_id = resource_id,
      a_details = (case details of None \<Rightarrow> None
                   | Some d \<Rightarrow> if truthy d then Some d else None),
      a_ip_address = remote_addr req,
      a_user_agent = user_agent req,
      a_timestamp = Some (utcnow req),
      a_session_id = x_session_id req\<rparr>"

definition log_audit_event ::
  "request \<Rightarrow> string \<Rightarrow> string \<Rightarrow> string option \<Rightarrow> nat option \<Rightarrow> jval option \<Rightarrow> system \<Rightarrow> system" where
  "log_audit_event req action resource_type resource_id user_id details s =
     s\<lparr>audit_logs := audit_logs s @
         [new_audit_log req s action resource_type resource_id user_id details]\<rparr>"

text \<open>The audit entries a call has added: those of the later system beyond the length of
  the earlier one.\<close>

definition new_entries :: "system \<Rightarrow> system \<Rightarrow> audit_log list" where
  "new_entries s s' = drop (length (audit_logs s)) (audit_logs s')"

text \<open>The \<open>record\<close> dictionary of \<open>create_chain_of_custody_record\<close>, which is also the
  details of the audit entry it writes.\<close>

definition custody_record :: "env \<Rightarrow> request \<Rightarrow> nat \<Rightarrow> string \<Rightarrow> nat \<Rightarrow> (string \<times> jval) list \<Rightarrow> jval" where
  "custody_record ev req document_id action user_id details =
     JObj [(''document_id'', JNum (int document_id)),
           (''action'', JStr action),
           (''user_id'', JNum (int user_id)),
           (''timestamp'', JStr (isoformat ev (utcnow req))),
           (''details'', JObj details)]"

definition create_chain_of_custody_record ::
  "env \<Rightarrow> request \<Rightarrow> nat \<Rightarrow> string \<Rightarrow> nat \<Rightarrow> (string \<times> jval) list \<Rightarrow> system \<Rightarrow> system" where
  "create_chain_of_custody_record ev req document_id action user_id details s =
     log_audit_event req (''chain_of_custody_'' @ action) ''document''
       (Some (str_nat document_id)) (Some user_id)
       (Some (custody_record ev req document_id action user_id details))
       s"

definition calculate_file_hash :: "env \<Rightarrow> bytes \<Rightarrow> string" where
  "calculate_file_hash ev file_content = sha256_hexdigest ev file_content"

definition allowed_extensions :: "string list" where
  "allowed_extensions =
     [''pdf'', ''doc'', ''docx'', ''txt'', ''rtf'',
      ''mp3'', ''wav'', ''mp4'', ''avi'', ''mov'',
      ''jpg'', ''jpeg'', ''png'', ''tiff'', ''bmp'',
      ''xls'', ''xlsx'', ''csv'']"

definition allowed_file :: "string \<Rightarrow> bool" where
  "allowed_file filename =
     (CHR ''.'' \<in> set filename
      \<and> lower (after_last (CHR ''.'') filename) \<in> set allowed_extensions)"

text \<open>\<open>os.path.splitext\<close>: the extension starts at the last dot of the name, unless only
  dots come before it.\<close>

definition splitext :: "string \<Rightarrow> string \<times> string" where
  "splitext name =
     (let ext = after_last (CHR ''.'') name;
          root = take (length name - length ext - 1) name
      in if CHR ''.'' \<in> set name \<and> dropWhile (\<lambda>c. c = CHR ''.'') root \<noteq> []
         then (root, CHR ''.'' # ext) else (name, []))"

definition sanitize_filename :: "string \<Rightarrow> string" where
  "sanitize_filename filename0 =
     (let filename =
            map (\<lambda>c. if is_word c \<or> is_space c \<or> c = CHR ''.'' \<or> c = CHR ''-'' then c
                      else CHR ''_'')
                (after_last (CHR ''/'') filename0)
      in if length filename > 255
         then (case splitext filename of
                 (name, ext) \<Rightarrow>
                   (if length ext \<le> 255 then take (255 - length ext) name
                    else take (length name - (length ext - 255)) name) @ ext)
         else filename)"

definition get_file_type :: "string \<Rightarrow> string" where
  "get_file_type filename =
     (let ext = (if CHR ''.'' \<in> set filename then after_last (CHR ''.'') (lower filename) else [])
      in if ext \<in> set [''pdf'', ''doc'', ''docx'', ''txt'', ''rtf''] then ''document''
         else if ext \<in> set [''mp3'', ''wav'', ''flac'', ''aac''] then ''audio''
         else if ext \<in> set [''mp4'', ''avi'', ''mov'', ''wmv'', ''mkv''] then ''video''
         else if ext \<in> set [''jpg'', ''jpeg'', ''png'', ''gif'', ''tiff'', ''bmp''] then ''image''
         else if ext \<in> set [''xls'', ''xlsx'', ''csv''] then ''spreadsheet''
         else ''other'')"

text \<open>\<open>os.path.join\<close> of a directory and a relative name.\<close>

definition path_join :: "string \<Rightarrow> string \<Rightarrow> string" where
  "path_join dir name =
     (if dir = [] \<or> last dir = CHR ''/'' then dir @ name else dir @ CHR ''/'' # name)"

definition path_exists :: "system \<Rightarrow> string \<Rightarrow> bool" where
  "path_exists s path = (map_of (disk s) path \<noteq> None)"

definition read_file :: "system \<Rightarrow> string \<Rightarrow> bytes" where
  "read_file s path = (case map_of (disk s) path of None \<Rightarrow> [] | Some (content, mtime) \<Rightarrow> content)"

definition getmtime :: "system \<Rightarrow> string \<Rightarrow> nat" where
  "getmtime s path = (case map_of (disk s) path of None \<Rightarrow> 0 | Some (content, mtime) \<Rightarrow> mtime)"

definition save_file :: "string \<Rightarrow> bytes \<Rightarrow> nat \<Rightarrow> system \<Rightarrow> system" where
  "save_file path content mtime s =
     s\<lparr>disk := (path, content, mtime) # filter (\<lambda>e. fst e \<noteq> path) (disk s)\<rparr>"

definition remove_file :: "string \<Rightarrow> system \<Rightarrow> system" where
  "remove_file path s = s\<lparr>disk := filter (\<lambda>e. fst e \<noteq> path) (disk s)\<rparr>"

text \<open>\<open>if os.path.exists(path): os.remove(path)\<close>\<close>

definition remove_if_exists :: "string \<Rightarrow> system \<Rightarrow> system" where
  "remove_if_exists path s = (if path_exists s path then remove_file path s else s)"

definition get_user :: "system \<Rightarrow> nat \<Rightarrow> user option" where
  "get_user s user_id = find (\<lambda>u. u_id u = user_id) (users s)"

definition get_owned_document :: "system \<Rightarrow> nat \<Rightarrow> nat \<Rightarrow> document option" where
  "get_owned_document s document_id user_id =
     find (\<lambda>d. d_id d = document_id \<and> d_user_id d = user_id) (documents s)"

definition form_get :: "request \<Rightarrow> string \<Rightarrow> string \<Rightarrow> string" where
  "form_get req key dflt = (case map_of (form req) key of None \<Rightarrow> dflt | Some v \<Rightarrow> v)"

text \<open>The body of a handler's \<open>except Exception\<close> branch; the exception's text, which the
  source adds under \<open>details\<close>, is not modelled.\<close>

definition failure_response :: "string \<Rightarrow> response" where
  "failure_response msg = jsonify [(''error'', JStr msg)] 500"

section \<open>routes/documents.py\<close>

text \<open>The row built by \<open>Document(...)\<close> in \<open>upload_document\<close>, with the primary key and the
  column defaults the database fills in at the commit.\<close>

definition new_document :: "env \<Rightarrow> request \<Rightarrow> system \<Rightarrow> nat \<Rightarrow> string \<Rightarrow> bytes \<Rightarrow> document" where
  "new_document ev req s user_id original_filename file_content =
     (let unique_filename = uuid4 req @ ''_'' @ sanitize_filename original_filename
      in \<lparr>d_id = next_id (map d_id (documents s)),
          d_filename = unique_filename,
          d_original_filename = original_filename,
          d_file_path = path_join (SECURE_UPLOAD_FOLDER ev) unique_filename,
          d_file_size = length file_content,
          d_file_type = get_file_type original_filename,
          d_content_hash = calculate_file_hash ev file_content,
          d_uploaded_at = Some (utcnow req),
          d_user_id = user_id,
          d_case_number = form_get req ''case_number'' [],
          d_tags = form_get req ''tags'' ''[]'',
          d_description = form_get req ''description'' [],
          d_is_processed = False,
          d_processing_status = ''pending''\<rparr>)"

text \<open>The part of \<open>upload_document\<close> after the duplicate check: save the file, insert the
  row, write the two audit entries, answer 201. \<open>document.to_dict()\<close> in the answer raises
  when the tags are not JSON; the handler then removes the file and answers 500, the row
  and the audit entries being committed already.\<close>

definition store_upload :: "env \<Rightarrow> request \<Rightarrow> nat \<Rightarrow> string \<Rightarrow> bytes \<Rightarrow> system \<Rightarrow> system \<times> response" where
  "store_upload ev req user_id original_filename file_content s =
     (let doc = new_document ev req s user_id original_filename file_content;
          s1 = save_file (d_file_path doc) file_content (utcnow req) s;
          s2 = s1\<lparr>documents := documents s1 @ [doc]\<rparr>;
          s3 = create_chain_of_custody_record ev req (d_id doc) ''uploaded'' user_id
                 [(''original_filename'', JStr original_filename),
                  (''file_size'', JNum (int (d_file_size doc))),
                  (''content_hash'', JStr (d_content_hash doc))] s2;
          s4 = log_audit_event req ''document_uploaded'' ''document''
                 (Some (str_nat (d_id doc))) (Some user_id)
                 (Some (JObj [(''filename'', JStr original_filename),
                              (''file_size'', JNum (int (d_file_size doc))),
                              (''file_type'', JStr (d_file_type doc)),
                              (''case_number'', JStr (d_case_number doc))])) s3
      in case document_to_dict ev doc of
           None \<Rightarrow> (remove_file (d_file_path doc) s4, failure_response ''Upload failed'')
         | Some d \<Rightarrow>
             (s4, jsonify [(''message'', JStr ''Document uploaded successfully''),
                           (''document'', d)] 201))"

text \<open>\<open>upload_document\<close>. The handler's first use of \<open>request.files\<close> makes Flask parse
  the body, and Flask refuses there a body longer than \<open>MAX_CONTENT_LENGTH\<close> (set in
  \<open>app.py\<close>) by raising \<open>RequestEntityTooLarge\<close>; this happens inside the handler's \<open>try\<close>,
  so the answer is the 500 of its \<open>except\<close> branch, with nothing saved. The handler's own
  size test comes after it; as the file is part of the body, it does not fail for a body
  that Flask has accepted.\<close>

definition upload_document :: "env \<Rightarrow> request \<Rightarrow> system \<Rightarrow> system \<times> response" where
  "upload_document ev req s =
     (case jwt_identity req of
        None \<Rightarrow> (s, missing_token)
      | Some user_id \<Rightarrow>
     (case get_user s user_id of
        None \<Rightarrow> (s, error_response ''User not found'' 404)
      | Some user \<Rightarrow>
     if content_length req > MAX_CONTENT_LENGTH ev then (s, failure_response ''Upload failed'')
     else
     (case file_part req of
        None \<Rightarrow> (s, error_response ''No file provided'' 400)
      | Some (filename, file_content) \<Rightarrow>
          if filename = [] then (s, error_response ''No file selected'' 400)
          else if \<not> allowed_file filename then (s, error_response ''File type not allowed'' 400)
          else if length file_content > MAX_CONTENT_LENGTH ev
          then (s, error_response (''File too large. Maximum size: ''
                     @ format_file_size ev (MAX_CONTENT_LENGTH ev)) 400)
          else
            (case find (\<lambda>d. d_content_hash d = calculate_file_hash ev file_content) (documents s) of
               Some existing_doc \<Rightarrow>
                 (s, jsonify [(''error'', JStr ''File already exists''),
                              (''existing_document_id'', JNum (int (d_id existing_doc)))] 409)
             | None \<Rightarrow> store_upload ev req user_id filename file_content s))))"

definition get_document :: "env \<Rightarrow> request \<Rightarrow> nat \<Rightarrow> system \<Rightarrow> system \<times> response" where
  "get_document ev req document_id s =
     (case jwt_identity req of
        None \<Rightarrow> (s, missing_token)
      | Some user_id \<Rightarrow>
     (case get_user s user_id of
        None \<Rightarrow> (s, error_response ''User not found'' 404)
      | Some user \<Rightarrow>
     (case get_owned_document s document_id user_id of
        None \<Rightarrow> (s, error_response ''Document not found'' 404)
      | Some doc \<Rightarrow>
          let s1 = log_audit_event req ''document_accessed'' ''document''
                     (Some (str_nat document_id)) (Some user_id)
                     (Some (JObj [(''filename'', JStr (d_original_filename doc))])) s
          in (case document_to_dict ev doc of
                None \<Rightarrow> (s1, failure_response ''Failed to get document'')
              | Some d \<Rightarrow> (s1, jsonify [(''document'', d)] 200)))))"

text \<open>A successful download answers with the file itself (\<open>send_file\<close>); the response
  body names the path and the download name.\<close>

definition download_document :: "env \<Rightarrow> request \<Rightarrow> nat \<Rightarrow> system \<Rightarrow> system \<times> response" where
  "download_document ev req document_id s =
     (case jwt_identity req of
        None \<Rightarrow> (s, missing_token)
      | Some user_id \<Rightarrow>
     (case get_user s user_id of
        None \<Rightarrow> (s, error_response ''User not found'' 404)
      | Some user \<Rightarrow>
     (case get_owned_document s document_id user_id of
        None \<Rightarrow> (s, error_response ''Document not found'' 404)
      | Some doc \<Rightarrow>
          if \<not> path_exists s (d_file_path doc)
          then (s, error_response ''Document file not found on disk'' 404)
          else
            let file_content = read_file s (d_file_path doc)
            in if \<not> verify_integrity ev doc file_content
               then (log_audit_event req ''document_integrity_violation'' ''document''
                       (Some (str_nat document_id)) (Some user_id)
                       (Some (JObj [(''filename'', JStr (d_original_filename doc)),
                                    (''expected_hash'', JStr (d_content_hash doc)),
                                    (''actual_hash'', JStr (calculate_file_hash ev file_content))])) s,
                     error_response ''Document integrity check failed'' 500)
               else
                 let s1 = create_chain_of_custody_record ev req (d_id doc) ''downloaded'' user_id
                            [(''filename'', JStr (d_original_filename doc))] s;
                     s2 = log_audit_event req ''document_downloaded'' ''document''
                            (Some (str_nat document_id)) (Some user_id)
                            (Some (JObj [(''filename'', JStr (d_original_filename doc))])) s1
                 in (s2, jsonify [(''send_file'', JStr (d_file_path doc)),
                                  (''download_name'', JStr (d_original_filename doc))] 200))))"

text \<open>\<open>update_document\<close> stores the values of the body under the three metadata keys.
  The columns are text: a value that is not a string is outside the model and counts as
  refused by the database (the commit raises).\<close>

definition text_field :: "(string \<times> jval) list \<Rightarrow> string \<Rightarrow> string \<Rightarrow> string option" where
  "text_field data key current =
     (case map_of data key of
        None \<Rightarrow> Some current
      | Some (JStr v) \<Rightarrow> Some v
      | Some _ \<Rightarrow> None)"

definition update_document :: "env \<Rightarrow> request \<Rightarrow> nat \<Rightarrow> system \<Rightarrow> system \<times> response" where
  "update_document ev req document_id s =
     (case jwt_identity req of
        None \<Rightarrow> (s, missing_token)
      | Some user_id \<Rightarrow>
     (case get_user s user_id of
        None \<Rightarrow> (s, error_response ''User not found'' 404)
      | Some user \<Rightarrow>
     (case get_owned_document s document_id user_id of
        None \<Rightarrow> (s, error_response ''Document not found'' 404)
      | Some doc \<Rightarrow>
     (case json req of
        None \<Rightarrow> (s, failure_response ''Update failed'')
      | Some data \<Rightarrow>
     (case (text_field data ''case_number'' (d_case_number doc),
            text_field data ''description'' (d_description doc),
            text_field data ''tags'' (d_tags doc)) of
        (Some case_number, Some description, Some tags) \<Rightarrow>
          let doc' = doc\<lparr>d_case_number := case_number, d_description := description, d_tags := tags\<rparr>;
              s1 = s\<lparr>documents := map (\<lambda>d. if d_id d = d_id doc then doc' else d) (documents s)\<rparr>;
              s2 = log_audit_event req ''document_updated'' ''document''
                     (Some (str_nat document_id)) (Some user_id)
                     (Some (JObj [(''filename'', JStr (d_original_filename doc')),
                                  (''updated_fields'', JList (map (\<lambda>kv. JStr (fst kv)) data))])) s1
          in (case document_to_dict ev doc' of
                None \<Rightarrow> (s2, failure_response ''Update failed'')
              | Some d \<Rightarrow>
                  (s2, jsonify [(''message'', JStr ''Document updated successfully''),
                                (''document'', d)] 200))
      | _ \<Rightarrow> (s, failure_response ''Update failed''))))))"

text \<open>
  \<open>delete_document\<close>. The role test comes first, the ownership test second. The two audit
  entries are written and the file is removed before the row is deleted. Deleting a
  document row makes the object-relational mapper clear the \<open>document_id\<close> of the rows
  that depend on it (its summaries, redactions and timeline rows; no cascade is
  configured); these columns are \<open>NOT NULL\<close>, so the commit raises when such rows exist
  and the handler answers 500 after its rollback.
\<close>

definition has_dependent_rows :: "system \<Rightarrow> nat \<Rightarrow> bool" where
  "has_dependent_rows s document_id =
     (list_ex (\<lambda>r. s_document_id r = document_id) (summaries s)
      \<or> list_ex (\<lambda>r. r_document_id r = document_id) (redactions s)
      \<or> list_ex (\<lambda>r. t_document_id r = document_id) (timelines s))"

definition delete_document :: "env \<Rightarrow> request \<Rightarrow> nat \<Rightarrow> system \<Rightarrow> system \<times> response" where
  "delete_document ev req document_id s =
     (case jwt_identity req of
        None \<Rightarrow> (s, missing_token)
      | Some user_id \<Rightarrow>
     (case get_user s user_id of
        None \<Rightarrow> (s, error_response ''Insufficient permissions'' 403)
      | Some user \<Rightarrow>
          if u_role user \<notin> set [''admin'', ''forensic_analyst'']
          then (s, error_response ''Insufficient permissions'' 403)
          else
     (case get_owned_document s document_id user_id of
        None \<Rightarrow> (s, error_response ''Document not found'' 404)
      | Some doc \<Rightarrow>
     (case document_to_dict ev doc of
        None \<Rightarrow> (s, failure_response ''Deletion failed'')
      | Some doc_info \<Rightarrow>
          let s1 = create_chain_of_custody_record ev req (d_id doc) ''deleted'' user_id
                     [(''filename'', JStr (d_original_filename doc))] s;
              s2 = log_audit_event req ''document_deleted'' ''document''
                     (Some (str_nat document_id)) (Some user_id) (Some doc_info) s1;
              s3 = remove_if_exists (d_file_path doc) s2
          in if has_dependent_rows s3 (d_id doc)
             then (s3, failure_response ''Deletion failed'')
             else (s3\<lparr>documents := filter (\<lambda>d. d_id d \<noteq> d_id doc) (documents s3)\<rparr>,
                   jsonify [(''message'', JStr ''Document deleted successfully'')] 200)))))"

text \<open>The system after the two audit entries of \<open>delete_document\<close> and the removal of the
  file (\<open>s3\<close> above).\<close>

definition delete_effects :: "env \<Rightarrow> request \<Rightarrow> nat \<Rightarrow> document \<Rightarrow> jval \<Rightarrow> system \<Rightarrow> system" where
  "delete_effects ev req user_id doc doc_info s =
     remove_if_exists (d_file_path doc)
       (log_audit_event req ''document_deleted'' ''document'' (Some (str_nat (d_id doc)))
          (Some user_id) (Some doc_info)
          (create_chain_of_custody_record ev req (d_id doc) ''deleted'' user_id
             [(''filename'', JStr (d_original_filename doc))] s))"

definition verify_document_integrity :: "env \<Rightarrow> request \<Rightarrow> nat \<Rightarrow> system \<Rightarrow> system \<times> response" where
  "verify_document_integrity ev req document_id s =
     (case jwt_identity req of
        None \<Rightarrow> (s, missing_token)
      | Some user_id \<Rightarrow>
     (case get_user s user_id of
        None \<Rightarrow> (s, error_response ''User not found'' 404)
      | Some user \<Rightarrow>
     (case get_owned_document s document_id user_id of
        None \<Rightarrow> (s, error_response ''Document not found'' 404)
      | Some doc \<Rightarrow>
          if \<not> path_exists s (d_file_path doc)
          then (s, jsonify [(''verified'', JBool False),
                            (''error'', JStr ''Document file not found on disk'')] 404)
          else
            let file_content = read_file s (d_file_path doc);
                current_hash = calculate_file_hash ev file_content;
                is_verified = (current_hash = d_content_hash doc);
                s1 = log_audit_event req ''document_integrity_verified'' ''document''
                       (Some (str_nat document_id)) (Some user_id)
                       (Some (JObj [(''filename'', JStr (d_original_filename doc)),
                                    (''verified'', JBool is_verified),
                                    (''original_hash'', JStr (d_content_hash doc)),
                                    (''current_hash'', JStr current_hash)])) s
            in (s1, jsonify [(''verified'', JBool is_verified),
                             (''original_hash'', JStr (d_content_hash doc)),
                             (''current_hash'', JStr current_hash),
                             (''file_size'', JNum (int (d_file_size doc))),
                             (''last_modified'', JStr (isoformat ev (getmtime s (d_file_path doc))))]
                        200))))"

section \<open>routes/auth.py\<close>

text \<open>Reading the JSON body. \<open>data.get(key)\<close> is \<^term>\<open>map_of data key\<close>. Where a handler
  calls a string method on a value, or hands it to a library that expects a string, a
  value of another type raises; \<open>None\<close> stands for that.\<close>

definition field_truthy :: "(string \<times> jval) list \<Rightarrow> string \<Rightarrow> bool" where
  "field_truthy data key = (case map_of data key of None \<Rightarrow> False | Some v \<Rightarrow> truthy v)"

definition as_str :: "jval \<Rightarrow> string option" where
  "as_str v = (case v of JStr x \<Rightarrow> Some x | _ \<Rightarrow> None)"

definition get_str :: "(string \<times> jval) list \<Rightarrow> string \<Rightarrow> string \<Rightarrow> string option" where
  "get_str data key dflt = (case map_of data key of None \<Rightarrow> Some dflt | Some v \<Rightarrow> as_str v)"

text \<open>\<open>validate_password_strength\<close> on a value of the body: a string is validated; a list
  or an object shorter than 8 fails the length test; anything else raises (in \<open>len\<close> or
  in \<open>re.search\<close>).\<close>

definition validate_password_value :: "jval \<Rightarrow> bool option" where
  "validate_password_value v =
     (case v of
        JStr p \<Rightarrow> Some (validate_password_strength p)
      | JList xs \<Rightarrow> if length xs < 8 then Some False else None
      | JObj kvs \<Rightarrow> if length kvs < 8 then Some False else None
      | _ \<Rightarrow> None)"

definition weak_password_message :: string where
  "weak_password_message =
     ''Password must be at least 8 characters long and contain uppercase, lowercase, number, and special character''"

definition register :: "env \<Rightarrow> request \<Rightarrow> system \<Rightarrow> system \<times> response" where
  "register ev req s =
     (case json req of
        None \<Rightarrow> (s, failure_response ''Registration failed'')
      | Some data \<Rightarrow>
     (case find (\<lambda>field. \<not> field_truthy data field) [''username'', ''email'', ''password''] of
        Some field \<Rightarrow> (s, error_response (field @ '' is required'') 400)
      | None \<Rightarrow>
     (case (get_str data ''username'' [], get_str data ''email'' [], map_of data ''password'') of
        (Some username0, Some email0, Some password) \<Rightarrow>
          let username = lower (strip username0);
              email = lower (strip email0)
          in (case validate_password_value password of
                None \<Rightarrow> (s, failure_response ''Registration failed'')
              | Some False \<Rightarrow> (s, error_response weak_password_message 400)
              | Some True \<Rightarrow>
                  if find (\<lambda>u. u_username u = username) (users s) \<noteq> None
                  then (s, error_response ''Username already exists'' 409)
                  else if find (\<lambda>u. u_email u = email) (users s) \<noteq> None
                  then (s, error_response ''Email already exists'' 409)
                  else
                    (case (get_str data ''role'' ''user'', as_str password) of
                       (Some role, Some p) \<Rightarrow>
                         let usr = \<lparr>u_id = next_id (map u_id (users s)),
                                    u_username = username,
                                    u_email = email,
                                    u_password_hash = generate_password_hash ev p,
                                    u_role = role,
                                    u_is_active = True,
                                    u_created_at = Some (utcnow req),
                                    u_last_login = None\<rparr>;
                             s1 = s\<lparr>users := users s @ [usr]\<rparr>;
                             s2 = log_audit_event req ''user_registered'' ''user''
                                    (Some (str_nat (u_id usr))) (Some (u_id usr))
                                    (Some (JObj [(''username'', JStr username),
                                                 (''email'', JStr email)])) s1
                         in (s2, jsonify [(''message'', JStr ''User registered successfully''),
                                          (''user'', user_to_dict ev usr)] 201)
                     | _ \<Rightarrow> (s, failure_response ''Registration failed'')))
      | _ \<Rightarrow> (s, failure_response ''Registration failed''))))"

definition login :: "env \<Rightarrow> request \<Rightarrow> system \<Rightarrow> system \<times> response" where
  "login ev req s =
     (case json req of
        None \<Rightarrow> (s, failure_response ''Login failed'')
      | Some data \<Rightarrow>
     (case get_str data ''username'' [] of
        None \<Rightarrow> (s, failure_response ''Login failed'')
      | Some username0 \<Rightarrow>
          let username = lower (strip username0);
              password = (case map_of data ''password'' of None \<Rightarrow> JStr [] | Some v \<Rightarrow> v)
          in if username = [] \<or> \<not> truthy password
             then (s, error_response ''Username and password are required'' 400)
             else
               (case find (\<lambda>u. u_username u = username) (users s) of
                  None \<Rightarrow>
                    (log_audit_event req ''login_failed'' ''user'' (Some username) None
                       (Some (JObj [(''reason'', JStr ''invalid_credentials''),
                                    (''username'', JStr username)])) s,
                     error_response ''Invalid credentials'' 401)
                | Some usr \<Rightarrow>
                    (case as_str password of
                       None \<Rightarrow> (s, failure_response ''Login failed'')
                     | Some p \<Rightarrow>
                         if \<not> check_password_hash ev (u_password_hash usr) p
                         then (log_audit_event req ''login_failed'' ''user'' (Some username) None
                                 (Some (JObj [(''reason'', JStr ''invalid_credentials''),
                                              (''username'', JStr username)])) s,
                               error_response ''Invalid credentials'' 401)
                         else if \<not> u_is_active usr
                         then (log_audit_event req ''login_failed'' ''user''
                                 (Some (str_nat (u_id usr))) (Some (u_id usr))
                                 (Some (JObj [(''reason'', JStr ''inactive_account''),
                                              (''username'', JStr username)])) s,
                               error_response ''Account is inactive'' 401)
                         else
                           let usr' = usr\<lparr>u_last_login := Some (utcnow req)\<rparr>;
                               s1 = s\<lparr>users := map (\<lambda>u. if u_id u = u_id usr then usr' else u) (users s)\<rparr>;
                               access_token = create_access_token ev (u_id usr') (u_username usr') (u_role usr');
                               s2 = log_audit_event req ''login_successful'' ''user''
                                      (Some (str_nat (u_id usr'))) (Some (u_id usr'))
                                      (Some (JObj [(''username'', JStr username)])) s1
                           in (s2, jsonify [(''access_token'', JStr access_token),
                                            (''user'', user_to_dict ev usr')] 200)))))"

definition logout :: "env \<Rightarrow> request \<Rightarrow> system \<Rightarrow> system \<times> response" where
  "logout ev req s =
     (case jwt_identity req of
        None \<Rightarrow> (s, missing_token)
      | Some user_id \<Rightarrow>
          ((case get_user s user_id of
              None \<Rightarrow> s
            | Some usr \<Rightarrow>
                log_audit_event req ''logout'' ''user'' (Some (str_nat (u_id usr))) (Some (u_id usr))
                  (Some (JObj [(''username'', JStr (u_username usr))])) s),
           jsonify [(''message'', JStr ''Logged out successfully'')] 200))"

definition change_password :: "env \<Rightarrow> request \<Rightarrow> system \<Rightarrow> system \<times> response" where
  "change_password ev req s =
     (case jwt_identity req of
        None \<Rightarrow> (s, missing_token)
      | Some user_id \<Rightarrow>
     (case get_user s user_id of
        None \<Rightarrow> (s, error_response ''User not found'' 404)
      | Some usr \<Rightarrow>
     (case json req of
        None \<Rightarrow> (s, failure_response ''Password change failed'')
      | Some data \<Rightarrow>
          if \<not> field_truthy data ''current_password'' \<or> \<not> field_truthy data ''new_password''
          then (s, error_response ''Current and new passwords are required'' 400)
          else
     (case (map_of data ''current_password'', map_of data ''new_password'') of
        (Some (JStr current_password), Some new_password) \<Rightarrow>
          if \<not> check_password_hash ev (u_password_hash usr) current_password
          then (log_audit_event req ''password_change_failed'' ''user''
                  (Some (str_nat (u_id usr))) (Some (u_id usr))
                  (Some (JObj [(''reason'', JStr ''invalid_current_password'')])) s,
                error_response ''Invalid current password'' 401)
          else
            (case validate_password_value new_password of
               None \<Rightarrow> (s, failure_response ''Password change failed'')
             | Some False \<Rightarrow> (s, error_response (''New p'' @ tl weak_password_message) 400)
             | Some True \<Rightarrow>
                 (case as_str new_password of
                    None \<Rightarrow> (s, failure_response ''Password change failed'')
                  | Some p \<Rightarrow>
                      let usr' = usr\<lparr>u_password_hash := generate_password_hash ev p\<rparr>;
                          s1 = s\<lparr>users := map (\<lambda>u. if u_id u = u_id usr then usr' else u) (users s)\<rparr>;
                          s2 = log_audit_event req ''password_changed'' ''user''
                                 (Some (str_nat (u_id usr))) (Some (u_id usr))
                                 (Some (JObj [(''username'', JStr (u_username usr))])) s1
                      in (s2, jsonify [(''message'', JStr ''Password changed successfully'')] 200)))
      | _ \<Rightarrow> (s, failure_response ''Password change failed'')))))"

section \<open>routes/processing.py\<close>

definition endswith :: "string \<Rightarrow> string \<Rightarrow> bool" where
  "endswith s suf = (length suf \<le> length s \<and> drop (length s - length suf) s = suf)"

text \<open>\<open>extract_text_from_file\<close>: the outer \<open>None\<close> is the exception it raises, the inner
  \<open>None\<close> the value it returns for a file it has no reader for.\<close>

definition extract_text_from_file :: "env \<Rightarrow> system \<Rightarrow> string \<Rightarrow> string \<Rightarrow> string option option" where
  "extract_text_from_file ev s file_path file_type =
     (if file_type = ''document''
      then if endswith (lower file_path) ''.pdf''
           then map_option Some (extract_pdf_text ev (read_file s file_path))
           else if endswith (lower file_path) ''.doc'' \<or> endswith (lower file_path) ''.docx''
           then map_option Some (extract_docx_text ev (read_file s file_path))
           else if endswith (lower file_path) ''.txt''
           then map_option Some (decode_utf8 ev (read_file s file_path))
           else Some None
      else Some None)"

definition json_or_empty :: "request \<Rightarrow> (string \<times> jval) list" where
  "json_or_empty req = (case json req of None \<Rightarrow> [] | Some data \<Rightarrow> data)"

definition summarize_document :: "env \<Rightarrow> request \<Rightarrow> nat \<Rightarrow> system \<Rightarrow> system \<times> response" where
  "summarize_document ev req document_id s =
     (case jwt_identity req of
        None \<Rightarrow> (s, missing_token)
      | Some user_id \<Rightarrow>
     (case get_user s user_id of
        None \<Rightarrow> (s, error_response ''User not found'' 404)
      | Some usr \<Rightarrow>
     (case get_owned_document s document_id user_id of
        None \<Rightarrow> (s, error_response ''Document not found'' 404)
      | Some doc \<Rightarrow>
     (case get_str (json_or_empty req) ''summary_type'' ''brief'' of
        None \<Rightarrow> (s, error_response ''Invalid summary type'' 400)
      | Some summary_type \<Rightarrow>
          if summary_type \<notin> set [''brief'', ''detailed'', ''key_points'']
          then (s, error_response ''Invalid summary type'' 400)
          else if \<not> path_exists s (d_file_path doc)
          then (s, error_response ''Document file not found'' 404)
          else
     (case extract_text_from_file ev s (d_file_path doc) (d_file_type doc) of
        None \<Rightarrow> (s, failure_response ''Summarization failed'')
      | Some None \<Rightarrow> (s, error_response ''Could not extract text from document'' 400)
      | Some (Some text_content) \<Rightarrow>
          if text_content = []
          then (s, error_response ''Could not extract text from document'' 400)
          else
            let summary_content = generate_summary_basic ev text_content summary_type;
                existing_summary =
                  find (\<lambda>r. s_document_id r = document_id \<and> s_summary_type r = summary_type)
                    (summaries s);
                summary =
                  (case existing_summary of
                     Some r \<Rightarrow> r\<lparr>s_content := summary_content, s_created_at := Some (utcnow req),
                                  s_processing_time := elapsed req\<rparr>
                   | None \<Rightarrow> \<lparr>s_id = next_id (map s_id (summaries s)),
                               s_document_id = document_id,
                               s_summary_type = summary_type,
                               s_content = summary_content,
                               s_confidence_score = 0.8,
                               s_created_at = Some (utcnow req),
                               s_processing_time = elapsed req\<rparr>);
                s1 = s\<lparr>summaries :=
                         (case existing_summary of
                            Some r \<Rightarrow> map (\<lambda>x. if s_id x = s_id r then summary else x) (summaries s)
                          | None \<Rightarrow> summaries s @ [summary])\<rparr>;
                s2 = s1\<lparr>documents :=
                         map (\<lambda>d. if d_id d = d_id doc
                                   then d\<lparr>d_processing_status := ''completed'', d_is_processed := True\<rparr>
                                   else d) (documents s1)\<rparr>;
                s3 = create_chain_of_custody_record ev req (d_id doc) ''summarized'' user_id
                       [(''summary_type'', JStr summary_type),
                        (''processing_time'', JFloat (elapsed req))] s2;
                s4 = log_audit_event req ''document_summarized'' ''document''
                       (Some (str_nat document_id)) (Some user_id)
                       (Some (JObj [(''filename'', JStr (d_original_filename doc)),
                                    (''summary_type'', JStr summary_type),
                                    (''processing_time'', JFloat (elapsed req))])) s3
            in (s4, jsonify [(''message'', JStr ''Document summarized successfully''),
                             (''summary'', JStr (s_content summary))] 200))))))"

text \<open>The rows \<open>redact_document\<close> stores, one per recorded match; the primary keys follow
  each other.\<close>

fun redaction_rows ::
  "nat \<Rightarrow> nat \<Rightarrow> string \<Rightarrow> string \<Rightarrow> nat \<Rightarrow> nat \<Rightarrow> redaction_entry list \<Rightarrow> document_redaction list" where
  "redaction_rows k document_id redaction_type redaction_text user_id now [] = []"
| "redaction_rows k document_id redaction_type redaction_text user_id now (e # es) =
     \<lparr>r_id = k,
      r_document_id = document_id,
      r_redaction_type = redaction_type,
      r_start_position = e_start e,
      r_end_position = e_end e,
      r_original_text = e_original e,
      r_redacted_text = redaction_text,
      r_reason = ''Automatic '' @ redaction_type @ '' redaction'',
      r_created_at = Some now,
      r_applied_by = user_id\<rparr>
     # redaction_rows (Suc k) document_id redaction_type redaction_text user_id now es"

text \<open>The answer of \<open>redact_document\<close> cuts the text after 1000 characters.\<close>

definition preview :: "string \<Rightarrow> string" where
  "preview t = (if length t > 1000 then take 1000 t @ ''...'' else t)"

text \<open>The redaction itself: the caller's patterns when the type is \<open>custom\<close> and patterns
  are given, the built-in patterns of \<open>redact_text\<close> otherwise. \<open>None\<close> when it raises.\<close>

definition apply_redaction ::
  "env \<Rightarrow> request \<Rightarrow> string \<Rightarrow> string \<Rightarrow> string \<Rightarrow> (string \<times> redaction_entry list) option" where
  "apply_redaction ev req redaction_type redaction_text text_content =
     (let custom_patterns =
            (case map_of (json_or_empty req) ''custom_patterns'' of None \<Rightarrow> JList [] | Some v \<Rightarrow> v)
      in if redaction_type = ''custom'' \<and> truthy custom_patterns
         then custom_redact ev custom_patterns text_content redaction_text
         else (case redact_text text_content redaction_text of
                 Redacted t r \<Rightarrow> Some (t, r)
               | Unredacted t \<Rightarrow> None))"

text \<open>The part of \<open>redact_document\<close> after the redaction: store the rows, write the two
  audit entries, answer 200.\<close>

definition store_redactions ::
  "env \<Rightarrow> request \<Rightarrow> nat \<Rightarrow> nat \<Rightarrow> document \<Rightarrow> string \<Rightarrow> string \<Rightarrow> string
     \<Rightarrow> redaction_entry list \<Rightarrow> system \<Rightarrow> system \<times> response" where
  "store_redactions ev req user_id document_id doc redaction_type redaction_text redacted_text
     redactions_made s =
     (let s1 = s\<lparr>redactions := redactions s @
                  redaction_rows (next_id (map r_id (redactions s))) document_id
                    redaction_type redaction_text user_id (utcnow req) redactions_made\<rparr>;
          s2 = create_chain_of_custody_record ev req (d_id doc) ''redacted'' user_id
                 [(''redaction_type'', JStr redaction_type),
                  (''redactions_count'', JNum (int (length redactions_made)))] s1;
          s3 = log_audit_event req ''document_redacted'' ''document''
                 (Some (str_nat document_id)) (Some user_id)
                 (Some (JObj [(''filename'', JStr (d_original_filename doc)),
                              (''redaction_type'', JStr redaction_type),
                              (''redactions_count'', JNum (int (length redactions_made)))])) s2
      in (s3, jsonify [(''message'', JStr ''Document redacted successfully''),
                       (''redactions_count'', JNum (int (length redactions_made))),
                       (''redacted_text'', JStr (preview redacted_text))] 200))"

definition redact_document :: "env \<Rightarrow> request \<Rightarrow> nat \<Rightarrow> system \<Rightarrow> system \<times> response" where
  "redact_document ev req document_id s =
     (case jwt_identity req of
        None \<Rightarrow> (s, missing_token)
      | Some user_id \<Rightarrow>
     (case get_user s user_id of
        None \<Rightarrow> (s, error_response ''User not found'' 404)
      | Some usr \<Rightarrow>
     (case get_owned_document s document_id user_id of
        None \<Rightarrow> (s, error_response ''Document not found'' 404)
      | Some doc \<Rightarrow>
          if \<not> path_exists s (d_file_path doc)
          then (s, error_response ''Document file not found'' 404)
          else
     (case extract_text_from_file ev s (d_file_path doc) (d_file_type doc) of
        None \<Rightarrow> (s, failure_response ''Redaction failed'')
      | Some None \<Rightarrow> (s, error_response ''Could not extract text from document'' 400)
      | Some (Some text_content) \<Rightarrow>
          if text_content = []
          then (s, error_response ''Could not extract text from document'' 400)
          else
     (case (get_str (json_or_empty req) ''redaction_type'' ''pii'',
            get_str (json_or_empty req) ''redaction_text'' ''***REDACTED***'') of
        (Some redaction_type, Some redaction_text) \<Rightarrow>
          (case apply_redaction ev req redaction_type redaction_text text_content of
             None \<Rightarrow> (s, failure_response ''Redaction failed'')
           | Some (redacted_text, redactions_made) \<Rightarrow>
               store_redactions ev req user_id document_id doc redaction_type redaction_text redacted_text
                 redactions_made s)
      | _ \<Rightarrow> (s, failure_response ''Redaction failed''))))))"

text \<open>The rows \<open>generate_timeline\<close> stores, one per extracted event (date, description,
  confidence).\<close>

fun timeline_rows :: "nat \<Rightarrow> nat \<Rightarrow> nat \<Rightarrow> (nat \<times> string \<times> real) list \<Rightarrow> document_timeline list" where
  "timeline_rows k document_id now [] = []"
| "timeline_rows k document_id now ((date, description, confidence) # events) =
     \<lparr>t_id = k,
      t_document_id = document_id,
      t_event_date = date,
      t_event_type = ''extracted'',
      t_event_description = description,
      t_confidence_score = confidence,
      t_extracted_at = Some now\<rparr>
     # timeline_rows (Suc k) document_id now events"

text \<open>The part of \<open>generate_timeline\<close> after the extraction: clear the document's rows,
  store the new ones in one commit, write the two audit entries, answer 200.\<close>

definition store_timeline ::
  "env \<Rightarrow> request \<Rightarrow> nat \<Rightarrow> nat \<Rightarrow> document \<Rightarrow> (nat \<times> string \<times> real) list \<Rightarrow> system
     \<Rightarrow> system \<times> response" where
  "store_timeline ev req user_id document_id doc timeline_events s =
     (let kept = filter (\<lambda>r. t_document_id r \<noteq> document_id) (timelines s);
          timeline_records =
            timeline_rows (next_id (map t_id kept)) document_id (utcnow req) timeline_events;
          s1 = s\<lparr>timelines := kept @ timeline_records\<rparr>;
          s2 = create_chain_of_custody_record ev req (d_id doc) ''timeline_generated'' user_id
                 [(''events_extracted'', JNum (int (length timeline_events))),
                  (''processing_time'', JFloat (elapsed req))] s1;
          s3 = log_audit_event req ''document_timeline_generated'' ''document''
                 (Some (str_nat document_id)) (Some user_id)
                 (Some (JObj [(''filename'', JStr (d_original_filename doc)),
                              (''events_extracted'', JNum (int (length timeline_events))),
                              (''processing_time'', JFloat (elapsed req))])) s2
      in (s3, jsonify [(''message'', JStr ''Timeline generated successfully''),
                       (''events_count'', JNum (int (length timeline_events))),
                       (''timeline'', JList (map (timeline_to_dict ev) timeline_records)),
                       (''processing_time'', JFloat (elapsed req))] 200))"

definition generate_timeline :: "env \<Rightarrow> request \<Rightarrow> nat \<Rightarrow> system \<Rightarrow> system \<times> response" where
  "generate_timeline ev req document_id s =
     (case jwt_identity req of
        None \<Rightarrow> (s, missing_token)
      | Some user_id \<Rightarrow>
     (case get_user s user_id of
        None \<Rightarrow> (s, error_response ''User not found'' 404)
      | Some usr \<Rightarrow>
     (case get_owned_document s document_id user_id of
        None \<Rightarrow> (s, error_response ''Document not found'' 404)
      | Some doc \<Rightarrow>
          if \<not> path_exists s (d_file_path doc)
          then (s, error_response ''Document file not found'' 404)
          else
     (case extract_text_from_file ev s (d_file_path doc) (d_file_type doc) of
        None \<Rightarrow> (s, failure_response ''Timeline generation failed'')
      | Some None \<Rightarrow> (s, error_response ''Could not extract text from document'' 400)
      | Some (Some text_content) \<Rightarrow>
          if text_content = []
          then (s, error_response ''Could not extract text from document'' 400)
          else store_timeline ev req user_id document_id doc
                 (extract_timeline_events_basic ev text_content) s))))"

text \<open>The events stored for a document: date, description and confidence of its timeline
  rows, in the order of the table.\<close>

definition stored_events :: "system \<Rightarrow> nat \<Rightarrow> (nat \<times> string \<times> real) list" where
  "stored_events s document_id =
     map (\<lambda>r. (t_event_date r, t_event_description r, t_confidence_score r))
       (filter (\<lambda>r. t_document_id r = document_id) (timelines s))"

definition placeholder_transcription :: "string \<Rightarrow> string" where
  "placeholder_transcription original_filename =
     ''[PLACEHOLDER TRANSCRIPTION] This is a placeholder transcription for '' @ original_filename
       @ ''. In production, this would contain the actual transcribed audio/video content using AI services.''"

definition transcribe_document :: "env \<Rightarrow> request \<Rightarrow> nat \<Rightarrow> system \<Rightarrow> system \<times> response" where
  "transcribe_document ev req document_id s =
     (case jwt_identity req of
        None \<Rightarrow> (s, missing_token)
      | Some user_id \<Rightarrow>
     (case get_user s user_id of
        None \<Rightarrow> (s, error_response ''User not found'' 404)
      | Some usr \<Rightarrow>
     (case get_owned_document s document_id user_id of
        None \<Rightarrow> (s, error_response ''Document not found'' 404)
      | Some doc \<Rightarrow>
          if d_file_type doc \<notin> set [''audio'', ''video'']
          then (s, error_response ''Document is not audio or video'' 400)
          else
            let transcription = placeholder_transcription (d_original_filename doc);
                existing_transcription =
                  find (\<lambda>r. s_document_id r = document_id \<and> s_summary_type r = ''transcription'')
                    (summaries s);
                summary =
                  (case existing_transcription of
                     Some r \<Rightarrow> r\<lparr>s_content := transcription, s_created_at := Some (utcnow req),
                                  s_processing_time := elapsed req\<rparr>
                   | None \<Rightarrow> \<lparr>s_id = next_id (map s_id (summaries s)),
                               s_document_id = document_id,
                               s_summary_type = ''transcription'',
                               s_content = transcription,
                               s_confidence_score = 0.9,
                               s_created_at = Some (utcnow req),
                               s_processing_time = elapsed req\<rparr>);
                s1 = s\<lparr>summaries :=
                         (case existing_transcription of
                            Some r \<Rightarrow> map (\<lambda>x. if s_id x = s_id r then summary else x) (summaries s)
                          | None \<Rightarrow> summaries s @ [summary])\<rparr>;
                s2 = create_chain_of_custody_record ev req (d_id doc) ''transcribed'' user_id
                       [(''processing_time'', JFloat (elapsed req))] s1;
                s3 = log_audit_event req ''document_transcribed'' ''document''
                       (Some (str_nat document_id)) (Some user_id)
                       (Some (JObj [(''filename'', JStr (d_original_filename doc)),
                                    (''processing_time'', JFloat (elapsed req))])) s2
            in (s3, jsonify [(''message'', JStr ''Document transcribed successfully''),
                             (''transcription'', JStr (s_content summary))] 200))))"

section \<open>routes/analysis.py\<close>

text \<open>\<open>str.encode('utf-8')\<close> of a string of code points below 256.\<close>

definition encode_utf8 :: "string \<Rightarrow> bytes" where
  "encode_utf8 t =
     concat (map (\<lambda>c. if ord c < 128 then [c]
                        else [char_of (192 + ord c div 64), char_of (128 + ord c mod 64)]) t)"

definition chat_to_dict :: "env \<Rightarrow> chat_analysis \<Rightarrow> jval" where
  "chat_to_dict ev c =
     JObj [(''id'', JNum (int (c_id c))),
           (''user_id'', JNum (int (c_user_id c))),
           (''analysis_result'', c_analysis_result c),
           (''content_hash'', JStr (c_content_hash c)),
           (''created_at'', opt_time ev (c_created_at c))]"

definition analyze_chat :: "env \<Rightarrow> request \<Rightarrow> system \<Rightarrow> system \<times> response" where
  "analyze_chat ev req s =
     (case jwt_identity req of
        None \<Rightarrow> (s, missing_token)
      | Some user_id \<Rightarrow>
     (case get_user s user_id of
        None \<Rightarrow> (s, error_response ''User not found'' 404)
      | Some usr \<Rightarrow>
     (case map_of (json_or_empty req) ''content'' of
        None \<Rightarrow> (s, error_response ''Chat content is required'' 400)
      | Some content \<Rightarrow>
     (case as_str content of
        None \<Rightarrow> (s, failure_response ''Analysis failed'')
      | Some chat_content \<Rightarrow>
          if length (strip chat_content) < 5
          then (s, error_response ''Chat content too short for analysis'' 400)
          else if length chat_content > 10000
          then (s, error_response ''Chat content too long (max 10,000 characters)'' 400)
          else
            let content_hash = calculate_file_hash ev (encode_utf8 chat_content)
            in (case find (\<lambda>c. c_content_hash c = content_hash \<and> c_user_id c = user_id
                               \<and> (case c_created_at c of
                                     None \<Rightarrow> False
                                   | Some t \<Rightarrow> int t > int (utcnow req) - 3600))
                       (chat_analyses s) of
                  Some existing_analysis \<Rightarrow>
                    (log_audit_event req ''chat_analysis_retrieved'' ''chat''
                       (Some (str_nat (c_id existing_analysis))) (Some user_id)
                       (Some (JObj [(''content_hash'', JStr content_hash)])) s,
                     jsonify [(''message'', JStr ''Analysis retrieved from cache''),
                              (''analysis'', chat_to_dict ev existing_analysis)] 200)
                | None \<Rightarrow>
                    let analysis_result = analyze_chat_content_basic ev chat_content;
                        chat = \<lparr>c_id = next_id (map c_id (chat_analyses s)),
                                 c_user_id = user_id,
                                 c_chat_content = chat_content,
                                 c_analysis_result = JObj analysis_result,
                                 c_content_hash = content_hash,
                                 c_created_at = Some (utcnow req)\<rparr>;
                        s1 = s\<lparr>chat_analyses := chat_analyses s @ [chat]\<rparr>;
                        field = (\<lambda>k. case map_of analysis_result k of None \<Rightarrow> JNull | Some v \<Rightarrow> v);
                        s2 = log_audit_event req ''chat_analyzed'' ''chat''
                               (Some (str_nat (c_id chat))) (Some user_id)
                               (Some (JObj [(''content_hash'', JStr content_hash),
                                            (''sentiment'', field ''sentiment''),
                                            (''urgency_level'', field ''urgency_level''),
                                            (''contains_sensitive_info'', field ''contains_sensitive_info''),
                                            (''processing_time'', JFloat (elapsed req))])) s1;
                        s3 = (if truthy (field ''contains_sensitive_info'')
                              then log_audit_event req ''sensitive_content_detected'' ''chat''
                                     (Some (str_nat (c_id chat))) (Some user_id)
                                     (Some (JObj [(''content_hash'', JStr content_hash)])) s2
                              else s2)
                    in (s3, jsonify [(''message'', JStr ''Chat analyzed successfully''),
                                     (''analysis'', chat_to_dict ev chat)] 201))))))"

definition args_get :: "request \<Rightarrow> string \<Rightarrow> string option" where
  "args_get req key = map_of (args req) key"

text \<open>\<open>get_forensic_data\<close>. Of the answer, the audit trail's length is modelled.
  \<open>routes/analysis.py\<close> does not import \<open>os\<close>: for a resource of type \<open>document\<close> whose row
  exists, the handler raises at \<open>os.path.exists\<close> (\<open>NameError\<close>), if \<open>document.to_dict()\<close> has
  not raised before, and answers with the 500 of its \<open>except\<close> branch, without an audit
  entry.\<close>

definition get_forensic_data :: "env \<Rightarrow> request \<Rightarrow> nat \<Rightarrow> system \<Rightarrow> system \<times> response" where
  "get_forensic_data ev req resource_id s =
     (case jwt_identity req of
        None \<Rightarrow> (s, missing_token)
      | Some user_id \<Rightarrow>
     (case get_user s user_id of
        None \<Rightarrow> (s, error_response ''Insufficient permissions for forensic access'' 403)
      | Some usr \<Rightarrow>
          if u_role usr \<notin> set [''admin'', ''forensic_analyst'']
          then (s, error_response ''Insufficient permissions for forensic access'' 403)
          else
            let resource_type = (case args_get req ''type'' of None \<Rightarrow> ''document'' | Some t \<Rightarrow> t)
            in if resource_type \<notin> set [''document'', ''chat'', ''user'']
               then (s, error_response ''Invalid resource type'' 400)
               else
                 let trail = filter (\<lambda>a. a_resource_type a = resource_type
                                        \<and> a_resource_id a = Some (str_nat resource_id)) (audit_logs s);
                     details_ok =
                       (if resource_type = ''document''
                        then (case find (\<lambda>d. d_id d = resource_id) (documents s) of
                                None \<Rightarrow> True
                              | Some doc \<Rightarrow> False)
                        else True)
                 in if \<not> details_ok then (s, failure_response ''Failed to get forensic data'')
                    else
                      (log_audit_event req ''forensic_data_accessed'' resource_type
                         (Some (str_nat resource_id)) (Some user_id)
                         (Some (JObj [(''accessed_by'', JStr (u_username usr)),
                                      (''events_count'', JNum (int (length trail)))])) s,
                       jsonify [(''message'', JStr ''Forensic data retrieved successfully''),
                                (''total_events'', JNum (int (length trail)))] 200)))"

text \<open>\<open>get_audit_logs\<close>. A date filter that \<open>fromisoformat\<close> refuses ends the request with
  400; the page of entries in the answer is not modelled.\<close>

definition bad_date :: "env \<Rightarrow> string option \<Rightarrow> bool" where
  "bad_date ev d = (case d of None \<Rightarrow> False | Some t \<Rightarrow> t \<noteq> [] \<and> fromisoformat ev t = None)"

definition get_audit_logs :: "env \<Rightarrow> request \<Rightarrow> system \<Rightarrow> system \<times> response" where
  "get_audit_logs ev req s =
     (case jwt_identity req of
        None \<Rightarrow> (s, missing_token)
      | Some user_id \<Rightarrow>
     (case get_user s user_id of
        None \<Rightarrow> (s, error_response ''Insufficient permissions for audit access'' 403)
      | Some usr \<Rightarrow>
          if u_role usr \<notin> set [''admin'', ''forensic_analyst'']
          then (s, error_response ''Insufficient permissions for audit access'' 403)
          else if bad_date ev (args_get req ''start_date'')
          then (s, error_response ''Invalid start_date format'' 400)
          else if bad_date ev (args_get req ''end_date'')
          then (s, error_response ''Invalid end_date format'' 400)
          else
            (log_audit_event req ''audit_logs_accessed'' ''system'' None (Some user_id)
               (Some (JObj [(''accessed_by'', JStr (u_username usr)),
                            (''filters'', JObj [(''action'', opt_str (args_get req ''action'')),
                                                (''resource_type'', opt_str (args_get req ''resource_type'')),
                                                (''start_date'', opt_str (args_get req ''start_date'')),
                                                (''end_date'', opt_str (args_get req ''end_date''))])])) s,
             jsonify [] 200)))"

text \<open>\<open>[doc.to_dict() for doc in documents]\<close>: raises when one of them does.\<close>

fun all_to_dict :: "env \<Rightarrow> document list \<Rightarrow> jval list option" where
  "all_to_dict ev [] = Some []"
| "all_to_dict ev (d # ds) =
     (case document_to_dict ev d of
        None \<Rightarrow> None
      | Some j \<Rightarrow> map_option (\<lambda>js. j # js) (all_to_dict ev ds))"

text \<open>The \<open>documents\<close> part of an export; \<open>None\<close> when a \<open>to_dict\<close> raises.\<close>

definition export_documents :: "env \<Rightarrow> jval \<Rightarrow> nat \<Rightarrow> system \<Rightarrow> (string \<times> jval) list option" where
  "export_documents ev export_type user_id s =
     (if export_type \<in> set [JStr ''full'', JStr ''documents'']
      then map_option (\<lambda>js. [(''documents'', JList js)])
             (all_to_dict ev (filter (\<lambda>d. d_user_id d = user_id) (documents s)))
      else Some [])"

definition export_chats :: "env \<Rightarrow> jval \<Rightarrow> nat \<Rightarrow> system \<Rightarrow> (string \<times> jval) list" where
  "export_chats ev export_type user_id s =
     (if export_type \<in> set [JStr ''full'', JStr ''chats'']
      then [(''chat_analyses'',
             JList (map (chat_to_dict ev) (filter (\<lambda>c. c_user_id c = user_id) (chat_analyses s))))]
      else [])"

definition export_audit_logs :: "env \<Rightarrow> jval \<Rightarrow> nat \<Rightarrow> system \<Rightarrow> (string \<times> jval) list" where
  "export_audit_logs ev export_type user_id s =
     (if export_type \<in> set [JStr ''full'', JStr ''audit'']
      then [(''audit_logs'',
             JList (map (audit_to_dict ev)
                      (filter (\<lambda>a. a_user_id a = Some user_id) (audit_logs s))))]
      else [])"

definition export_type_of :: "request \<Rightarrow> jval" where
  "export_type_of req =
     (case map_of (json_or_empty req) ''export_type'' of None \<Rightarrow> JStr ''full'' | Some v \<Rightarrow> v)"

definition export_analysis_data :: "env \<Rightarrow> request \<Rightarrow> system \<Rightarrow> system \<times> response" where
  "export_analysis_data ev req s =
     (case jwt_identity req of
        None \<Rightarrow> (s, missing_token)
      | Some user_id \<Rightarrow>
     (case get_user s user_id of
        None \<Rightarrow> (s, error_response ''Insufficient permissions for data export'' 403)
      | Some usr \<Rightarrow>
          if u_role usr \<notin> set [''admin'', ''forensic_analyst'']
          then (s, error_response ''Insufficient permissions for data export'' 403)
          else
            let export_type = export_type_of req;
                metadata =
                  [(''export_metadata'',
                    JObj [(''generated_by'', JStr (u_username usr)),
                          (''generated_at'', JStr (isoformat ev (utcnow req))),
                          (''export_type'', export_type),
                          (''system_version'', JStr ''1.0.0'')])]
            in (case export_documents ev export_type user_id s of
                  None \<Rightarrow> (s, failure_response ''Export failed'')
                | Some documents_part \<Rightarrow>
                    (log_audit_event req ''data_exported'' ''system'' None (Some user_id)
                       (Some (JObj [(''export_type'', export_type),
                                    (''exported_by'', JStr (u_username usr))])) s,
                     jsonify [(''message'', JStr ''Data exported successfully''),
                              (''export_data'',
                               JObj (metadata @ documents_part
                                       @ export_chats ev export_type user_id s
                                       @ export_audit_logs ev export_type user_id s))]
                       200))))"

section \<open>The operations of the system\<close>

text \<open>The handlers that write to the database or to the upload directory. The other
  handlers (profile, the listings, the statistics, the health check and the pages) only
  read.\<close>

datatype operation =
    Register | Login | Logout | ChangePassword
  | Upload | GetDocument nat | Download nat | Update nat | Delete nat | Verify nat
  | Summarize nat | Redact nat | Timeline nat | Transcribe nat
  | AnalyzeChat | Forensics nat | AuditLogs | Export

fun handle :: "env \<Rightarrow> request \<Rightarrow> operation \<Rightarrow> system \<Rightarrow> system \<times> response" where
  "handle ev req Register s = register ev req s"
| "handle ev req Login s = login ev req s"
| "handle ev req Logout s = logout ev req s"
| "handle ev req ChangePassword s = change_password ev req s"
| "handle ev req Upload s = upload_document ev req s"
| "handle ev req (GetDocument document_id) s = get_document ev req document_id s"
| "handle ev req (Download document_id) s = download_document ev req document_id s"
| "handle ev req (Update document_id) s = update_document ev req document_id s"
| "handle ev req (Delete document_id) s = delete_document ev req document_id s"
| "handle ev req (Verify document_id) s = verify_document_integrity ev req document_id s"
| "handle ev req (Summarize document_id) s = summarize_document ev req document_id s"
| "handle ev req (Redact document_id) s = redact_document ev req document_id s"
| "handle ev req (Timeline document_id) s = generate_timeline ev req document_id s"
| "handle ev req (Transcribe document_id) s = transcribe_document ev req document_id s"
| "handle ev req AnalyzeChat s = analyze_chat ev req s"
| "handle ev req (Forensics resource_id) s = get_forensic_data ev req resource_id s"
| "handle ev req AuditLogs s = get_audit_logs ev req s"
| "handle ev req Export s = export_analysis_data ev req s"

text \<open>A run of the system: requests handled one after the other.\<close>

fun run :: "env \<Rightarrow> (request \<times> operation) list \<Rightarrow> system \<Rightarrow> system" where
  "run ev [] s = s"
| "run ev ((req, op) # rest) s = run ev rest (fst (handle ev req op s))"

section \<open>Example data\<close>

text \<open>A configuration, three users and some requests, used to instantiate the theorems
  below. The digest and the password hash are stand-ins that keep their argument
  readable.\<close>

definition example_env :: env where
  "example_env =
     \<lparr>sha256_hexdigest = (\<lambda>b. ''sha256:'' @ b),
      md5_hexdigest = (\<lambda>b. ''md5:'' @ b),
      generate_password_hash = (\<lambda>p. ''pbkdf2:'' @ p),
      check_password_hash = (\<lambda>h p. h = ''pbkdf2:'' @ p),
      json_loads = (\<lambda>t. if t = ''[]'' then Some (JList []) else None),
      isoformat = str_nat,
      create_access_token = (\<lambda>i u r. ''token-'' @ u),
      format_file_size = str_nat,
      extract_pdf_text = (\<lambda>b. None),
      extract_docx_text = (\<lambda>b. None),
      decode_utf8 = Some,
      fromisoformat = (\<lambda>t. None),
      extract_timeline_events_basic = (\<lambda>t. [(1700000000, t, 0.7)]),
      generate_summary_basic = (\<lambda>t ty. t),
      analyze_chat_content_basic = (\<lambda>t. []),
      custom_redact = (\<lambda>p t m. None),
      MAX_CONTENT_LENGTH = 16777216,
      SECURE_UPLOAD_FOLDER = ''secure_uploads''\<rparr>"

definition alice :: user where
  "alice =
     \<lparr>u_id = 1, u_username = ''alice'', u_email = ''alice@example.org'',
      u_password_hash = ''pbkdf2:Secret#2024'', u_role = ''user'', u_is_active = True,
      u_created_at = Some 1000, u_last_login = None\<rparr>"

definition bob :: user where
  "bob =
     \<lparr>u_id = 2, u_username = ''bob'', u_email = ''bob@example.org'',
      u_password_hash = ''pbkdf2:Analyst#2024'', u_role = ''forensic_analyst'', u_is_active = True,
      u_created_at = Some 1000, u_last_login = None\<rparr>"

definition carol :: user where
  "carol =
     \<lparr>u_id = 3, u_username = ''carol'', u_email = ''carol@example.org'',
      u_password_hash = ''pbkdf2:Admin#2024'', u_role = ''admin'', u_is_active = True,
      u_created_at = Some 1000, u_last_login = None\<rparr>"

definition empty_system :: system where
  "empty_system =
     \<lparr>users = [alice, bob, carol], documents = [], summaries = [], redactions = [], timelines = [],
      audit_logs = [], chat_analyses = [], disk = []\<rparr>"

definition request_of :: "nat \<Rightarrow> nat \<Rightarrow> request" where
  "request_of user_id now =
     \<lparr>jwt_identity = Some user_id, remote_addr = Some ''10.0.0.7'', user_agent = Some ''curl'',
      x_session_id = None, utcnow = now, uuid4 = ''0f8fad5b'', elapsed = 0,
      file_part = None, form = [], json = None, args = [], content_length = 0\<rparr>"

text \<open>An upload: the body is the file and 200 bytes of multipart framing.\<close>

definition upload_request :: "nat \<Rightarrow> nat \<Rightarrow> string \<Rightarrow> bytes \<Rightarrow> request" where
  "upload_request user_id now filename content =
     (request_of user_id now)\<lparr>file_part := Some (filename, content),
                               content_length := length content + 200\<rparr>"

definition json_request :: "nat \<Rightarrow> nat \<Rightarrow> (string \<times> jval) list \<Rightarrow> request" where
  "json_request user_id now data = (request_of user_id now)\<lparr>json := Some data\<rparr>"

text \<open>The system after Bob has uploaded \<open>memo.txt\<close>.\<close>

definition memo :: bytes where
  "memo = ''SSN: 123-45-6789''"

definition system_with_memo :: system where
  "system_with_memo = fst (upload_document example_env (upload_request 2 2000 ''memo.txt'' memo) empty_system)"

text \<open>The row of that upload.\<close>

definition memo_document :: document where
  "memo_document =
     new_document example_env (upload_request 2 2000 ''memo.txt'' memo) empty_system 2 ''memo.txt'' memo"

text \<open>The same system after the stored file has been overwritten on disk.\<close>

definition tampered_system :: system where
  "tampered_system =
     system_with_memo\<lparr>disk := [(''secure_uploads/0f8fad5b_memo.txt'', ''SSN: 987-65-4321'', 4500)]\<rparr>"

text \<open>The action and the timestamp of the audit entries a call has added.\<close>

definition audit_trail :: "system \<Rightarrow> system \<Rightarrow> (string \<times> nat option) list" where
  "audit_trail s s' = map (\<lambda>e. (a_action e, a_timestamp e)) (new_entries s s')"

section \<open>Password strength\<close>


section \<open>Basic facts\<close>

lemma status_jsonify [simp]: "status (jsonify kvs c) = c"
  by (simp add: jsonify_def)

lemma status_error_response [simp]: "status (error_response m c) = c"
  by (simp add: error_response_def)

lemma status_missing_token [simp]: "status missing_token = 401"
  by (simp add: missing_token_def)

lemma status_failure_response [simp]: "status (failure_response m) = 500"
  by (simp add: failure_response_def)

lemma response_field_jsonify [simp]: "response_field (jsonify kvs c) key = map_of kvs key"
  by (simp add: response_field_def jsonify_def)

lemma str_nat_digit: "n < 10 \<Longrightarrow> str_nat n = [char_of (48 + n)]"
  by (simp add: str_nat.simps)

lemma fold_max_ge: "(m::nat) \<le> fold max xs m"
  by (induction xs arbitrary: m) (auto intro: order_trans[OF max.cobounded2])

lemma fold_max_mem: "x \<in> set xs \<Longrightarrow> (x::nat) \<le> fold max xs m"
proof (induction xs arbitrary: m)
  case Nil
  then show ?case by simp
next
  case (Cons a xs)
  show ?case
  proof (cases "x = a")
    case True
    have "a \<le> max a m" by simp
    also have "\<dots> \<le> fold max xs (max a m)" by (rule fold_max_ge)
    finally show ?thesis using True by simp
  next
    case False
    with Cons show ?thesis by simp
  qed
qed

lemma next_id_fresh: "next_id ids \<notin> set ids"
proof
  assume "next_id ids \<in> set ids"
  then have "next_id ids \<le> fold max ids 0" by (rule fold_max_mem)
  then show False by (simp add: next_id_def)
qed

lemma find_append_last:
  "\<forall>x \<in> set xs. \<not> P x \<Longrightarrow> P y \<Longrightarrow> find P (xs @ [y]) = Some y"
  by (induction xs) auto

lemma log_audit_event_frame [simp]:
  "users (log_audit_event req a rt rid uid det s) = users s"
  "documents (log_audit_event req a rt rid uid det s) = documents s"
  "summaries (log_audit_event req a rt rid uid det s) = summaries s"
  "redactions (log_audit_event req a rt rid uid det s) = redactions s"
  "timelines (log_audit_event req a rt rid uid det s) = timelines s"
  "chat_analyses (log_audit_event req a rt rid uid det s) = chat_analyses s"
  "disk (log_audit_event req a rt rid uid det s) = disk s"
  by (simp_all add: log_audit_event_def)

lemma chain_of_custody_frame [simp]:
  "users (create_chain_of_custody_record ev req d a u det s) = users s"
  "documents (create_chain_of_custody_record ev req d a u det s) = documents s"
  "summaries (create_chain_of_custody_record ev req d a u det s) = summaries s"
  "redactions (create_chain_of_custody_record ev req d a u det s) = redactions s"
  "timelines (create_chain_of_custody_record ev req d a u det s) = timelines s"
  "chat_analyses (create_chain_of_custody_record ev req d a u det s) = chat_analyses s"
  "disk (create_chain_of_custody_record ev req d a u det s) = disk s"
  by (simp_all add: create_chain_of_custody_record_def)

lemma save_file_frame [simp]:
  "users (save_file p c m s) = users s"
  "documents (save_file p c m s) = documents s"
  "summaries (save_file p c m s) = summaries s"
  "redactions (save_file p c m s) = redactions s"
  "timelines (save_file p c m s) = timelines s"
  "audit_logs (save_file p c m s) = audit_logs s"
  "map_of (disk (save_file p c m s)) p = Some (c, m)"
  by (simp_all add: save_file_def)

lemma remove_file_frame [simp]:
  "users (remove_file p s) = users s"
  "documents (remove_file p s) = documents s"
  "summaries (remove_file p s) = summaries s"
  "redactions (remove_file p s) = redactions s"
  "timelines (remove_file p s) = timelines s"
  "audit_logs (remove_file p s) = audit_logs s"
  by (simp_all add: remove_file_def)

lemma remove_if_exists_frame [simp]:
  "users (remove_if_exists p s) = users s"
  "documents (remove_if_exists p s) = documents s"
  "summaries (remove_if_exists p s) = summaries s"
  "redactions (remove_if_exists p s) = redactions s"
  "timelines (remove_if_exists p s) = timelines s"
  "audit_logs (remove_if_exists p s) = audit_logs s"
  by (simp_all add: remove_if_exists_def)

lemma get_user_cong: "users s' = users s \<Longrightarrow> get_user s' = get_user s"
  by (simp add: get_user_def fun_eq_iff)

section \<open>Upload and integrity\<close>

lemma new_document_fields [simp]:
  "d_id (new_document ev req s user_id filename b) = next_id (map d_id (documents s))"
  "d_user_id (new_document ev req s user_id filename b) = user_id"
  "d_content_hash (new_document ev req s user_id filename b) = sha256_hexdigest ev b"
  by (simp_all add: new_document_def Let_def calculate_file_hash_def)

lemma store_upload_status:
  "status (snd (store_upload ev req user_id filename b s)) = 201
     \<longleftrightarrow> document_to_dict ev (new_document ev req s user_id filename b) \<noteq> None"
  by (simp add: store_upload_def Let_def split: option.splits)

lemma store_upload_success:
  assumes "status (snd (store_upload ev req user_id filename b s)) = 201"
  shows "documents (fst (store_upload ev req user_id filename b s))
           = documents s @ [new_document ev req s user_id filename b]"
    and "users (fst (store_upload ev req user_id filename b s)) = users s"
    and "map_of (disk (fst (store_upload ev req user_id filename b s)))
           (d_file_path (new_document ev req s user_id filename b)) = Some (b, utcnow req)"
proof -
  from assms obtain d where
    d: "document_to_dict ev (new_document ev req s user_id filename b) = Some d"
    by (auto simp: store_upload_status)
  show "documents (fst (store_upload ev req user_id filename b s))
           = documents s @ [new_document ev req s user_id filename b]"
    using d by (simp add: store_upload_def Let_def)
  show "users (fst (store_upload ev req user_id filename b s)) = users s"
    using d by (simp add: store_upload_def Let_def)
  show "map_of (disk (fst (store_upload ev req user_id filename b s)))
           (d_file_path (new_document ev req s user_id filename b)) = Some (b, utcnow req)"
    using d by (simp add: store_upload_def Let_def)
qed

lemma upload_success_shape:
  assumes "status (snd (upload_document ev req s)) = 201"
  obtains user_id usr filename b where
     "jwt_identity req = Some user_id" "get_user s user_id = Some usr"
     "file_part req = Some (filename, b)"
     "upload_document ev req s = store_upload ev req user_id filename b s"
proof -
  from assms obtain user_id where uid: "jwt_identity req = Some user_id"
    by (cases "jwt_identity req") (auto simp: upload_document_def)
  from assms uid obtain usr where usr: "get_user s user_id = Some usr"
    by (cases "get_user s user_id") (auto simp: upload_document_def)
  from assms uid usr obtain filename b where fp: "file_part req = Some (filename, b)"
    by (cases "file_part req") (auto simp: upload_document_def split: if_splits)
  from assms uid usr fp have "upload_document ev req s = store_upload ev req user_id filename b s"
    by (simp add: upload_document_def split: if_splits option.splits)
  with uid usr fp show thesis by (rule that)
qed

lemma verify_unmodified:
  assumes "jwt_identity req = Some user_id" and "get_user s user_id = Some usr"
    and "get_owned_document s document_id user_id = Some doc"
    and "map_of (disk s) (d_file_path doc) = Some (b, m)"
    and "d_content_hash doc = sha256_hexdigest ev b"
  shows "status (snd (verify_document_integrity ev req document_id s)) = 200"
    and "response_field (snd (verify_document_integrity ev req document_id s)) ''verified''
           = Some (JBool True)"
  using assms
  by (simp_all add: verify_document_integrity_def path_exists_def read_file_def Let_def
        calculate_file_hash_def)

text \<open>
  C1. After a successful upload (status 201) of a file with content \<open>b\<close>, the new document
  row carries the SHA-256 hex digest of \<open>b\<close> as its content hash, the file stored under
  its path has content \<open>b\<close>, \<open>Document.verify_integrity\<close> on \<open>b\<close> is true, and the verify
  endpoint called next with the uploader's token answers 200 with \<open>verified = true\<close>.
\<close>

theorem upload_then_verify:
  assumes "status (snd (upload_document ev req s)) = 201"
    and "file_part req = Some (filename, b)"
    and "jwt_identity req' = jwt_identity req"
  shows "\<exists>doc. documents (fst (upload_document ev req s)) = documents s @ [doc]
           \<and> d_content_hash doc = sha256_hexdigest ev b
           \<and> verify_integrity ev doc b
           \<and> read_file (fst (upload_document ev req s)) (d_file_path doc) = b
           \<and> status (snd (verify_document_integrity ev req' (d_id doc)
                             (fst (upload_document ev req s)))) = 200
           \<and> response_field (snd (verify_document_integrity ev req' (d_id doc)
                                     (fst (upload_document ev req s)))) ''verified''
                = Some (JBool True)"
proof -
  from assms(1) obtain user_id usr filename' b' where
    uid: "jwt_identity req = Some user_id" and usr: "get_user s user_id = Some usr" and
    fp: "file_part req = Some (filename', b')" and
    eq: "upload_document ev req s = store_upload ev req user_id filename' b' s"
    by (rule upload_success_shape)
  from fp assms(2) have same: "filename' = filename" "b' = b" by simp_all
  define doc where "doc = new_document ev req s user_id filename b"
  define s' where "s' = fst (upload_document ev req s)"
  have st: "status (snd (store_upload ev req user_id filename b s)) = 201"
    using assms(1) eq same by simp
  have docs: "documents s' = documents s @ [doc]"
    and users: "users s' = users s"
    and stored: "map_of (disk s') (d_file_path doc) = Some (b, utcnow req)"
    using store_upload_success[OF st] by (simp_all add: s'_def doc_def eq same)
  have hash: "d_content_hash doc = sha256_hexdigest ev b"
    by (simp add: doc_def)
  have fresh: "\<forall>d \<in> set (documents s). \<not> (d_id d = d_id doc \<and> d_user_id d = user_id)"
    using next_id_fresh[of "map d_id (documents s)"] by (force simp: doc_def)
  have owned: "get_owned_document s' (d_id doc) user_id = Some doc"
    unfolding get_owned_document_def docs
    by (rule find_append_last[OF fresh]) (simp add: doc_def)
  have user': "get_user s' user_id = Some usr"
    using usr get_user_cong[OF users] by simp
  have uid': "jwt_identity req' = Some user_id"
    using assms(3) uid by simp
  have "verify_integrity ev doc b"
    by (simp add: verify_integrity_def calculate_hash_def hash)
  moreover have "read_file s' (d_file_path doc) = b"
    by (simp add: read_file_def stored)
  moreover note verify_unmodified[OF uid' user' owned stored hash] docs hash
  ultimately show ?thesis
    unfolding s'_def by blast
qed

lemmas example_defs =
  example_env_def upload_request_def json_request_def request_of_def empty_system_def
  alice_def bob_def carol_def memo_def

lemmas string_defs =
  allowed_file_def allowed_extensions_def after_last_def lower_def lower_char_def
  in_range_def ord_def

lemma upload_document_checked:
  assumes "jwt_identity req = Some user_id" and "get_user s user_id = Some usr"
    and "file_part req = Some (filename, b)" and "filename \<noteq> []" and "allowed_file filename"
    and "content_length req \<le> MAX_CONTENT_LENGTH ev" and "length b \<le> MAX_CONTENT_LENGTH ev"
  shows "upload_document ev req s =
           (case find (\<lambda>d. d_content_hash d = sha256_hexdigest ev b) (documents s) of
              Some existing_doc \<Rightarrow>
                (s, jsonify [(''error'', JStr ''File already exists''),
                             (''existing_document_id'', JNum (int (d_id existing_doc)))] 409)
            | None \<Rightarrow> store_upload ev req user_id filename b s)"
  using assms by (simp add: upload_document_def calculate_file_hash_def)

lemma example_upload:
  "upload_document example_env (upload_request 2 2000 ''memo.txt'' memo) empty_system
     = store_upload example_env (upload_request 2 2000 ''memo.txt'' memo) 2 ''memo.txt'' memo
         empty_system"
  by (simp add: upload_document_def get_user_def example_defs string_defs calculate_file_hash_def)

lemma example_upload_status:
  "status (snd (upload_document example_env (upload_request 2 2000 ''memo.txt'' memo) empty_system))
     = 201"
  unfolding example_upload
  by (simp add: store_upload_status new_document_def document_to_dict_def form_get_def Let_def
        example_defs)

theorem upload_then_verify_witness:
  "status (snd (upload_document example_env (upload_request 2 2000 ''memo.txt'' memo) empty_system))
     = 201
   \<and> (\<exists>doc. documents (fst (upload_document example_env (upload_request 2 2000 ''memo.txt'' memo)
                               empty_system))
               = documents empty_system @ [doc]
            \<and> d_content_hash doc = sha256_hexdigest example_env memo
            \<and> verify_integrity example_env doc memo
            \<and> read_file (fst (upload_document example_env (upload_request 2 2000 ''memo.txt'' memo)
                                 empty_system)) (d_file_path doc) = memo
            \<and> status (snd (verify_document_integrity example_env (request_of 2 2060) (d_id doc)
                              (fst (upload_document example_env
                                      (upload_request 2 2000 ''memo.txt'' memo) empty_system))))
                = 200
            \<and> response_field (snd (verify_document_integrity example_env (request_of 2 2060) (d_id doc)
                                      (fst (upload_document example_env
                                              (upload_request 2 2000 ''memo.txt'' memo) empty_system))))
                  ''verified''
                = Some (JBool True))"
proof -
  have part: "file_part (upload_request 2 2000 ''memo.txt'' memo) = Some (''memo.txt'', memo)"
    by (simp add: upload_request_def)
  have token: "jwt_identity (request_of 2 2060) = jwt_identity (upload_request 2 2000 ''memo.txt'' memo)"
    by (simp add: upload_request_def request_of_def)
  show ?thesis
    using example_upload_status upload_then_verify[OF example_upload_status part token]
    by (rule conjI)
qed

section \<open>Duplicate uploads\<close>

text \<open>A body longer than \<open>MAX_CONTENT_LENGTH\<close> is refused before the file is looked at,
  whatever the file is: the answer is 500 and nothing is stored.\<close>

lemma upload_document_body_too_large:
  assumes "jwt_identity req = Some user_id" and "get_user s user_id = Some usr"
    and "MAX_CONTENT_LENGTH ev < content_length req"
  shows "upload_document ev req s = (s, failure_response ''Upload failed'')"
  using assms by (simp add: upload_document_def)

text \<open>
  C5. An upload (a request that passes the handler's checks of the user, the file name
  and the size, with a body that Flask accepts, that is of at most \<open>MAX_CONTENT_LENGTH\<close>
  bytes) whose content has the digest of a stored document is answered with 409;
  the body names the id of the first stored document with that digest, and the system is
  returned as it was: no document row, no file and no audit entry is added.
\<close>

theorem duplicate_upload_conflict:
  assumes "jwt_identity req = Some user_id" and "get_user s user_id = Some usr"
    and "file_part req = Some (filename, b)" and "filename \<noteq> []" and "allowed_file filename"
    and "content_length req \<le> MAX_CONTENT_LENGTH ev" and "length b \<le> MAX_CONTENT_LENGTH ev"
    and "stored \<in> set (documents s)" and "d_content_hash stored = sha256_hexdigest ev b"
  shows "\<exists>first_doc.
           find (\<lambda>d. d_content_hash d = sha256_hexdigest ev b) (documents s) = Some first_doc
         \<and> status (snd (upload_document ev req s)) = 409
         \<and> response_field (snd (upload_document ev req s)) ''existing_document_id''
              = Some (JNum (int (d_id first_doc)))
         \<and> fst (upload_document ev req s) = s"
proof -
  from assms(8,9) obtain first_doc where
    first: "find (\<lambda>d. d_content_hash d = sha256_hexdigest ev b) (documents s) = Some first_doc"
    by (cases "find (\<lambda>d. d_content_hash d = sha256_hexdigest ev b) (documents s)")
       (auto simp: find_None_iff)
  have "upload_document ev req s =
          (s, jsonify [(''error'', JStr ''File already exists''),
                       (''existing_document_id'', JNum (int (d_id first_doc)))] 409)"
    using upload_document_checked[OF assms(1-7)] first by simp
  with first show ?thesis by simp
qed

lemma example_store_status:
  "status (snd (store_upload example_env (upload_request 2 2000 ''memo.txt'' memo) 2 ''memo.txt''
                  memo empty_system)) = 201"
  using example_upload_status unfolding example_upload .

lemma example_memo_documents:
  "documents system_with_memo
     = [new_document example_env (upload_request 2 2000 ''memo.txt'' memo) empty_system 2
          ''memo.txt'' memo]"
proof -
  have "documents empty_system = []" by (simp add: empty_system_def)
  with store_upload_success(1)[OF example_store_status] show ?thesis
    unfolding system_with_memo_def example_upload by simp
qed

lemma example_memo_users: "users system_with_memo = [alice, bob, carol]"
proof -
  have "users empty_system = [alice, bob, carol]" by (simp add: empty_system_def)
  with store_upload_success(2)[OF example_store_status] show ?thesis
    unfolding system_with_memo_def example_upload by simp
qed

theorem duplicate_upload_conflict_witness:
  "status (snd (upload_document example_env (upload_request 2 3000 ''copy.txt'' memo)
                  system_with_memo)) = 409
   \<and> response_field (snd (upload_document example_env (upload_request 2 3000 ''copy.txt'' memo)
                             system_with_memo)) ''existing_document_id'' = Some (JNum 1)
   \<and> fst (upload_document example_env (upload_request 2 3000 ''copy.txt'' memo) system_with_memo)
       = system_with_memo"
proof -
  define doc where
    "doc = new_document example_env (upload_request 2 2000 ''memo.txt'' memo) empty_system 2
             ''memo.txt'' memo"
  have docs: "documents system_with_memo = [doc]"
    by (simp add: example_memo_documents doc_def)
  have h1: "jwt_identity (upload_request 2 3000 ''copy.txt'' memo) = Some 2"
    by (simp add: example_defs)
  have h2: "get_user system_with_memo 2 = Some bob"
    by (simp add: get_user_def example_memo_users alice_def bob_def carol_def)
  have h3: "file_part (upload_request 2 3000 ''copy.txt'' memo) = Some (''copy.txt'', memo)"
    by (simp add: example_defs)
  have h4: "''copy.txt'' \<noteq> []" by simp
  have h5: "allowed_file ''copy.txt''" by (simp add: string_defs)
  have hc: "content_length (upload_request 2 3000 ''copy.txt'' memo)
              \<le> MAX_CONTENT_LENGTH example_env"
    by (simp add: example_defs)
  have h6: "length memo \<le> MAX_CONTENT_LENGTH example_env" by (simp add: example_defs)
  have h7: "doc \<in> set (documents system_with_memo)" by (simp add: docs)
  have h8: "d_content_hash doc = sha256_hexdigest example_env memo" by (simp add: doc_def)
  have first: "find (\<lambda>d. d_content_hash d = sha256_hexdigest example_env memo)
                 (documents system_with_memo) = Some doc"
    by (simp add: docs h8)
  have id: "d_id doc = 1"
    by (simp add: doc_def next_id_def empty_system_def)
  from duplicate_upload_conflict[OF h1 h2 h3 h4 h5 hc h6 h7 h8] first id
  show ?thesis by simp
qed

text \<open>
  C9. The duplicate check looks at the documents of all users: when the first stored
  document with the digest of the uploaded content belongs to another user, the uploader
  (whose request passes the handler's earlier checks and has a body of at most
  \<open>MAX_CONTENT_LENGTH\<close> bytes, as for C5) still gets 409, and the body gives that user's
  document id, a document the uploader does not own.
\<close>

theorem duplicate_check_is_global:
  assumes "jwt_identity req = Some user_id" and "get_user s user_id = Some usr"
    and "file_part req = Some (filename, b)" and "filename \<noteq> []" and "allowed_file filename"
    and "content_length req \<le> MAX_CONTENT_LENGTH ev" and "length b \<le> MAX_CONTENT_LENGTH ev"
    and "find (\<lambda>d. d_content_hash d = sha256_hexdigest ev b) (documents s) = Some other"
    and "d_user_id other \<noteq> user_id"
  shows "status (snd (upload_document ev req s)) = 409
       \<and> response_field (snd (upload_document ev req s)) ''existing_document_id''
            = Some (JNum (int (d_id other)))
       \<and> get_owned_document s (d_id other) user_id \<noteq> Some other"
proof -
  have "upload_document ev req s =
          (s, jsonify [(''error'', JStr ''File already exists''),
                       (''existing_document_id'', JNum (int (d_id other)))] 409)"
    using upload_document_checked[OF assms(1-7)] assms(8) by simp
  moreover have "get_owned_document s (d_id other) user_id \<noteq> Some other"
    using assms(9) by (auto simp: get_owned_document_def dest: find_Some_iff[THEN iffD1])
  ultimately show ?thesis by simp
qed

theorem duplicate_check_is_global_witness:
  "status (snd (upload_document example_env (upload_request 1 3000 ''mine.txt'' memo)
                  system_with_memo)) = 409
   \<and> response_field (snd (upload_document example_env (upload_request 1 3000 ''mine.txt'' memo)
                             system_with_memo)) ''existing_document_id'' = Some (JNum 1)
   \<and> map d_user_id (documents system_with_memo) = [2]"
proof -
  define doc where
    "doc = new_document example_env (upload_request 2 2000 ''memo.txt'' memo) empty_system 2
             ''memo.txt'' memo"
  have docs: "documents system_with_memo = [doc]"
    by (simp add: example_memo_documents doc_def)
  have h1: "jwt_identity (upload_request 1 3000 ''mine.txt'' memo) = Some 1"
    by (simp add: example_defs)
  have h2: "get_user system_with_memo 1 = Some alice"
    by (simp add: get_user_def example_memo_users alice_def bob_def carol_def)
  have h3: "file_part (upload_request 1 3000 ''mine.txt'' memo) = Some (''mine.txt'', memo)"
    by (simp add: example_defs)
  have h4: "''mine.txt'' \<noteq> []" by simp
  have h5: "allowed_file ''mine.txt''" by (simp add: string_defs)
  have hc: "content_length (upload_request 1 3000 ''mine.txt'' memo)
              \<le> MAX_CONTENT_LENGTH example_env"
    by (simp add: example_defs)
  have h6: "length memo \<le> MAX_CONTENT_LENGTH example_env" by (simp add: example_defs)
  have h7: "find (\<lambda>d. d_content_hash d = sha256_hexdigest example_env memo)
              (documents system_with_memo) = Some doc"
    by (simp add: docs doc_def)
  have h8: "d_user_id doc \<noteq> 1" by (simp add: doc_def)
  have id: "d_id doc = 1"
    by (simp add: doc_def next_id_def empty_system_def)
  from duplicate_check_is_global[OF h1 h2 h3 h4 h5 hc h6 h7 h8] id docs
  show ?thesis by (simp add: doc_def)
qed

section \<open>Deleting documents\<close>

lemma has_dependent_rows_frame [simp]:
  "has_dependent_rows (log_audit_event req a rt rid uid det s) k = has_dependent_rows s k"
  "has_dependent_rows (create_chain_of_custody_record ev req d a u det' s) k = has_dependent_rows s k"
  "has_dependent_rows (remove_if_exists p s) k = has_dependent_rows s k"
  by (simp_all add: has_dependent_rows_def)

lemma get_owned_document_id:
  "get_owned_document s document_id user_id = Some doc \<Longrightarrow>
     doc \<in> set (documents s) \<and> d_id doc = document_id \<and> d_user_id doc = user_id"
  by (auto simp: get_owned_document_def find_Some_iff)

lemma get_owned_document_None:
  "get_owned_document s document_id user_id = None
     \<longleftrightarrow> \<not> (\<exists>d \<in> set (documents s). d_id d = document_id \<and> d_user_id d = user_id)"
  by (auto simp: get_owned_document_def find_None_iff)

lemma delete_document_no_token:
  "jwt_identity req = None \<Longrightarrow> delete_document ev req document_id s = (s, missing_token)"
  by (simp add: delete_document_def)

lemma delete_document_no_user:
  "jwt_identity req = Some user_id \<Longrightarrow> get_user s user_id = None \<Longrightarrow>
   delete_document ev req document_id s = (s, error_response ''Insufficient permissions'' 403)"
  by (simp add: delete_document_def)

lemma delete_document_role:
  "jwt_identity req = Some user_id \<Longrightarrow> get_user s user_id = Some usr \<Longrightarrow>
   u_role usr \<notin> set [''admin'', ''forensic_analyst''] \<Longrightarrow>
   delete_document ev req document_id s = (s, error_response ''Insufficient permissions'' 403)"
  by (simp add: delete_document_def)

lemma delete_document_not_found:
  "jwt_identity req = Some user_id \<Longrightarrow> get_user s user_id = Some usr \<Longrightarrow>
   u_role usr \<in> set [''admin'', ''forensic_analyst''] \<Longrightarrow>
   get_owned_document s document_id user_id = None \<Longrightarrow>
   delete_document ev req document_id s = (s, error_response ''Document not found'' 404)"
  by (simp add: delete_document_def)

lemma delete_document_bad_tags:
  "jwt_identity req = Some user_id \<Longrightarrow> get_user s user_id = Some usr \<Longrightarrow>
   u_role usr \<in> set [''admin'', ''forensic_analyst''] \<Longrightarrow>
   get_owned_document s document_id user_id = Some doc \<Longrightarrow> document_to_dict ev doc = None \<Longrightarrow>
   delete_document ev req document_id s = (s, failure_response ''Deletion failed'')"
  by (simp add: delete_document_def)

lemma delete_document_owned:
  "jwt_identity req = Some user_id \<Longrightarrow> get_user s user_id = Some usr \<Longrightarrow>
   u_role usr \<in> set [''admin'', ''forensic_analyst''] \<Longrightarrow>
   get_owned_document s document_id user_id = Some doc \<Longrightarrow>
   document_to_dict ev doc = Some doc_info \<Longrightarrow>
   delete_document ev req document_id s =
     (if has_dependent_rows s (d_id doc)
      then (delete_effects ev req user_id doc doc_info s, failure_response ''Deletion failed'')
      else ((delete_effects ev req user_id doc doc_info s)
              \<lparr>documents := filter (\<lambda>d. d_id d \<noteq> d_id doc) (documents s)\<rparr>,
            jsonify [(''message'', JStr ''Document deleted successfully'')] 200))"
  apply (frule get_owned_document_id)
  apply (simp add: delete_document_def Let_def delete_effects_def)
  done

lemma delete_effects_documents [simp]:
  "documents (delete_effects ev req user_id doc doc_info s) = documents s"
  by (simp add: delete_effects_def)

text \<open>The outcomes of \<open>delete_document\<close>, by the checks in their order.\<close>

lemma delete_document_cases:
  obtains
    (no_token) "jwt_identity req = None"
      "delete_document ev req document_id s = (s, missing_token)"
  | (forbidden) user_id where "jwt_identity req = Some user_id"
      "\<forall>usr. get_user s user_id = Some usr \<longrightarrow> u_role usr \<notin> set [''admin'', ''forensic_analyst'']"
      "delete_document ev req document_id s = (s, error_response ''Insufficient permissions'' 403)"
  | (not_found) user_id usr where "jwt_identity req = Some user_id" "get_user s user_id = Some usr"
      "u_role usr \<in> set [''admin'', ''forensic_analyst'']"
      "get_owned_document s document_id user_id = None"
      "delete_document ev req document_id s = (s, error_response ''Document not found'' 404)"
  | (bad_tags) user_id usr doc where "jwt_identity req = Some user_id" "get_user s user_id = Some usr"
      "u_role usr \<in> set [''admin'', ''forensic_analyst'']"
      "get_owned_document s document_id user_id = Some doc"
      "delete_document ev req document_id s = (s, failure_response ''Deletion failed'')"
  | (dependent) user_id usr doc doc_info where "jwt_identity req = Some user_id"
      "get_user s user_id = Some usr" "u_role usr \<in> set [''admin'', ''forensic_analyst'']"
      "get_owned_document s document_id user_id = Some doc"
      "delete_document ev req document_id s =
         (delete_effects ev req user_id doc doc_info s, failure_response ''Deletion failed'')"
  | (deleted) user_id usr doc doc_info where "jwt_identity req = Some user_id"
      "get_user s user_id = Some usr" "u_role usr \<in> set [''admin'', ''forensic_analyst'']"
      "get_owned_document s document_id user_id = Some doc"
      "delete_document ev req document_id s =
         ((delete_effects ev req user_id doc doc_info s)
              \<lparr>documents := filter (\<lambda>d. d_id d \<noteq> d_id doc) (documents s)\<rparr>,
          jsonify [(''message'', JStr ''Document deleted successfully'')] 200)"
proof (cases "jwt_identity req")
  case None
  then show thesis by (rule no_token) (rule delete_document_no_token[OF None])
next
  case (Some user_id)
  show thesis
  proof (cases "get_user s user_id")
    case None
    show thesis
      by (rule forbidden[OF Some]) (simp_all add: None delete_document_no_user[OF Some None])
  next
    case usr: (Some usr)
    show thesis
    proof (cases "u_role usr \<in> set [''admin'', ''forensic_analyst'']")
      case False
      show thesis
        by (rule forbidden[OF Some]) (use usr False delete_document_role[OF Some usr False] in simp_all)
    next
      case role: True
      show thesis
      proof (cases "get_owned_document s document_id user_id")
        case None
        show thesis
          by (rule not_found[OF Some usr role None]) (rule delete_document_not_found[OF Some usr role None])
      next
        case doc: (Some doc)
        show thesis
        proof (cases "document_to_dict ev doc")
          case None
          show thesis
            by (rule bad_tags[OF Some usr role doc]) (rule delete_document_bad_tags[OF Some usr role doc None])
        next
          case info: (Some doc_info)
          show thesis
          proof (cases "has_dependent_rows s (d_id doc)")
            case True
            show thesis
              by (rule dependent[OF Some usr role doc])
                 (simp add: delete_document_owned[OF Some usr role doc info] True)
          next
            case False
            show thesis
              by (rule deleted[OF Some usr role doc])
                 (simp add: delete_document_owned[OF Some usr role doc info] False)
          qed
        qed
      qed
    qed
  qed
qed

text \<open>
  C10. \<open>delete_document\<close> answers 200 only when the caller's role is \<open>admin\<close> or
  \<open>forensic_analyst\<close> and the document with the given id is the caller's own. A caller
  who is unknown or has another role gets 403; a caller with such a role gets 404 when no
  document with that id is the caller's own (it is missing or belongs to someone else);
  in both cases the system, with its document rows and files, is returned unchanged.
  Whatever the outcome, the rows of the other users' documents are still in the table
  (ids being distinct, as primary keys are).
\<close>

theorem delete_document_authorization:
  "(status (snd (delete_document ev req document_id s)) = 200 \<longrightarrow>
      (\<exists>caller usr doc. jwt_identity req = Some caller \<and> get_user s caller = Some usr
          \<and> u_role usr \<in> set [''admin'', ''forensic_analyst'']
          \<and> doc \<in> set (documents s) \<and> d_id doc = document_id \<and> d_user_id doc = caller))
   \<and> (jwt_identity req = Some user_id
        \<and> (\<forall>usr. get_user s user_id = Some usr \<longrightarrow> u_role usr \<notin> set [''admin'', ''forensic_analyst''])
       \<longrightarrow> status (snd (delete_document ev req document_id s)) = 403
           \<and> fst (delete_document ev req document_id s) = s)
   \<and> (jwt_identity req = Some user_id \<and> get_user s user_id = Some usr
        \<and> u_role usr \<in> set [''admin'', ''forensic_analyst'']
        \<and> \<not> (\<exists>d \<in> set (documents s). d_id d = document_id \<and> d_user_id d = user_id)
       \<longrightarrow> status (snd (delete_document ev req document_id s)) = 404
           \<and> fst (delete_document ev req document_id s) = s)
   \<and> (jwt_identity req = Some user_id \<and> distinct (map d_id (documents s))
       \<longrightarrow> (\<forall>d \<in> set (documents s). d_user_id d \<noteq> user_id
              \<longrightarrow> d \<in> set (documents (fst (delete_document ev req document_id s)))))"
proof (intro conjI impI)
  assume "status (snd (delete_document ev req document_id s)) = 200"
  then show "\<exists>caller usr doc. jwt_identity req = Some caller \<and> get_user s caller = Some usr
          \<and> u_role usr \<in> set [''admin'', ''forensic_analyst'']
          \<and> doc \<in> set (documents s) \<and> d_id doc = document_id \<and> d_user_id doc = caller"
  proof (cases rule: delete_document_cases[of req ev document_id s])
    case (deleted caller usr doc doc_info)
    with get_owned_document_id[OF deleted(4)] show ?thesis by blast
  qed simp_all
next
  assume a: "jwt_identity req = Some user_id
     \<and> (\<forall>usr. get_user s user_id = Some usr \<longrightarrow> u_role usr \<notin> set [''admin'', ''forensic_analyst''])"
  have eq: "delete_document ev req document_id s
              = (s, error_response ''Insufficient permissions'' 403)"
  proof (cases "get_user s user_id")
    case None
    with a show ?thesis by (simp add: delete_document_no_user)
  next
    case (Some usr)
    with a have "u_role usr \<notin> set [''admin'', ''forensic_analyst'']" by blast
    with a Some show ?thesis by (simp add: delete_document_role)
  qed
  show "status (snd (delete_document ev req document_id s)) = 403" by (simp add: eq)
  show "fst (delete_document ev req document_id s) = s" by (simp add: eq)
next
  assume a: "jwt_identity req = Some user_id \<and> get_user s user_id = Some usr
     \<and> u_role usr \<in> set [''admin'', ''forensic_analyst'']
     \<and> \<not> (\<exists>d \<in> set (documents s). d_id d = document_id \<and> d_user_id d = user_id)"
  then have none: "get_owned_document s document_id user_id = None"
    by (simp add: get_owned_document_None)
  have eq: "delete_document ev req document_id s = (s, error_response ''Document not found'' 404)"
    using a none by (simp add: delete_document_not_found)
  show "status (snd (delete_document ev req document_id s)) = 404" by (simp add: eq)
  show "fst (delete_document ev req document_id s) = s" by (simp add: eq)
next
  assume a: "jwt_identity req = Some user_id \<and> distinct (map d_id (documents s))"
  show "\<forall>d \<in> set (documents s). d_user_id d \<noteq> user_id
          \<longrightarrow> d \<in> set (documents (fst (delete_document ev req document_id s)))"
  proof (intro ballI impI)
    fix d assume d: "d \<in> set (documents s)" "d_user_id d \<noteq> user_id"
    show "d \<in> set (documents (fst (delete_document ev req document_id s)))"
    proof (cases rule: delete_document_cases[of req ev document_id s])
      case (deleted caller usr doc doc_info)
      from deleted(1) a have "caller = user_id" by simp
      with get_owned_document_id[OF deleted(4)] d
      have "doc \<in> set (documents s)" "d \<noteq> doc" by auto
      with a d(1) have "d_id d \<noteq> d_id doc"
        by (auto simp: distinct_map dest: inj_onD)
      with d(1) show ?thesis by (simp add: deleted(5))
    qed (use d in simp_all)
  qed
qed

lemma store_upload_frame [simp]:
  "summaries (fst (store_upload ev req user_id filename b s)) = summaries s"
  "redactions (fst (store_upload ev req user_id filename b s)) = redactions s"
  "timelines (fst (store_upload ev req user_id filename b s)) = timelines s"
  by (simp_all add: store_upload_def Let_def split: option.splits)

lemma memo_document_fields:
  "d_id memo_document = 1" "d_user_id memo_document = 2"
  "d_content_hash memo_document = ''sha256:'' @ memo"
  "d_file_path memo_document = ''secure_uploads/0f8fad5b_memo.txt''"
  "d_original_filename memo_document = ''memo.txt''"
  "d_file_type memo_document = ''document''"
  "d_tags memo_document = ''[]''"
  by (simp_all add: memo_document_def new_document_def Let_def next_id_def form_get_def
        calculate_file_hash_def path_join_def sanitize_filename_def get_file_type_def
        is_word_def is_alnum_def is_digit_def is_space_def example_defs string_defs)

lemma example_memo_documents': "documents system_with_memo = [memo_document]"
  by (simp add: example_memo_documents memo_document_def)

lemma memo_document_to_dict: "document_to_dict example_env memo_document \<noteq> None"
  by (simp add: document_to_dict_def memo_document_fields example_env_def)

lemma example_memo_no_dependents: "\<not> has_dependent_rows system_with_memo k"
proof -
  have "summaries empty_system = []" "redactions empty_system = []" "timelines empty_system = []"
    by (simp_all add: empty_system_def)
  then show ?thesis
    unfolding system_with_memo_def example_upload by (simp add: has_dependent_rows_def)
qed

lemma example_memo_get_user:
  "get_user system_with_memo 1 = Some alice"
  "get_user system_with_memo 2 = Some bob"
  "get_user system_with_memo 3 = Some carol"
  by (simp_all add: get_user_def example_memo_users alice_def bob_def carol_def)

theorem delete_document_authorization_witness:
  "status (snd (delete_document example_env (request_of 2 4000) 1 system_with_memo)) = 200
   \<and> (\<exists>caller usr doc. jwt_identity (request_of 2 4000) = Some caller
          \<and> get_user system_with_memo caller = Some usr
          \<and> u_role usr \<in> set [''admin'', ''forensic_analyst'']
          \<and> doc \<in> set (documents system_with_memo) \<and> d_id doc = 1 \<and> d_user_id doc = caller)
   \<and> u_role alice = ''user''
   \<and> status (snd (delete_document example_env (request_of 1 4000) 1 system_with_memo)) = 403
   \<and> fst (delete_document example_env (request_of 1 4000) 1 system_with_memo) = system_with_memo
   \<and> u_role carol = ''admin''
   \<and> status (snd (delete_document example_env (request_of 3 4000) 1 system_with_memo)) = 404
   \<and> fst (delete_document example_env (request_of 3 4000) 1 system_with_memo) = system_with_memo
   \<and> memo_document \<in> set (documents (fst (delete_document example_env (request_of 3 4000) 1
                                               system_with_memo)))"
proof -
  have token: "jwt_identity (request_of k 4000) = Some k" for k
    by (simp add: request_of_def)
  have owned: "get_owned_document system_with_memo 1 2 = Some memo_document"
    by (simp add: get_owned_document_def example_memo_documents' memo_document_fields)
  obtain doc_info where info: "document_to_dict example_env memo_document = Some doc_info"
    using memo_document_to_dict by blast
  have bob_role: "u_role bob \<in> set [''admin'', ''forensic_analyst'']"
    by (simp add: bob_def)
  have carol_role: "u_role carol \<in> set [''admin'', ''forensic_analyst'']"
    by (simp add: carol_def)
  have deleted: "status (snd (delete_document example_env (request_of 2 4000) 1 system_with_memo)) = 200"
    using delete_document_owned[OF token example_memo_get_user(2) bob_role owned info]
      example_memo_no_dependents by simp
  note thm1 = delete_document_authorization[of example_env "request_of 2 4000" 1 system_with_memo]
  note thm2 = delete_document_authorization[of example_env "request_of 1 4000" 1 system_with_memo
                1 alice]
  note thm3 = delete_document_authorization[of example_env "request_of 3 4000" 1 system_with_memo
                3 carol]
  have alice_role: "\<forall>usr. get_user system_with_memo 1 = Some usr
                      \<longrightarrow> u_role usr \<notin> set [''admin'', ''forensic_analyst'']"
    using example_memo_get_user(1) by (simp add: alice_def)
  have not_carols: "\<not> (\<exists>d \<in> set (documents system_with_memo). d_id d = 1 \<and> d_user_id d = 3)"
    by (simp add: example_memo_documents' memo_document_fields)
  have ids: "distinct (map d_id (documents system_with_memo))"
    by (simp add: example_memo_documents')
  have bobs: "memo_document \<in> set (documents system_with_memo)" "d_user_id memo_document \<noteq> 3"
    by (simp_all add: example_memo_documents' memo_document_fields)
  from thm1 deleted have c1: "\<exists>caller usr doc. jwt_identity (request_of 2 4000) = Some caller
          \<and> get_user system_with_memo caller = Some usr
          \<and> u_role usr \<in> set [''admin'', ''forensic_analyst'']
          \<and> doc \<in> set (documents system_with_memo) \<and> d_id doc = 1 \<and> d_user_id doc = caller"
    by blast
  from thm2 token[of 1] alice_role
  have c2: "status (snd (delete_document example_env (request_of 1 4000) 1 system_with_memo)) = 403"
    "fst (delete_document example_env (request_of 1 4000) 1 system_with_memo) = system_with_memo"
    by blast+
  from thm3 token[of 3] example_memo_get_user(3) carol_role not_carols
  have c3: "status (snd (delete_document example_env (request_of 3 4000) 1 system_with_memo)) = 404"
    "fst (delete_document example_env (request_of 3 4000) 1 system_with_memo) = system_with_memo"
    by blast+
  from thm3 token[of 3] ids bobs
  have c4: "memo_document \<in> set (documents (fst (delete_document example_env (request_of 3 4000) 1
                                               system_with_memo)))"
    by blast
  show ?thesis
    using deleted c1 c2 c3 c4 by (simp add: alice_def carol_def)
qed

section \<open>The audit log\<close>

lemma audit_logs_log_audit_event [simp]:
  "audit_logs (log_audit_event req action rt rid uid det s)
     = audit_logs s @ [new_audit_log req s action rt rid uid det]"
  by (simp add: log_audit_event_def)

lemma audit_logs_chain_of_custody [simp]:
  "audit_logs (create_chain_of_custody_record ev req d action u details s)
     = audit_logs s @ [new_audit_log req s (''chain_of_custody_'' @ action) ''document''
                         (Some (str_nat d)) (Some u) (Some (custody_record ev req d action u details))]"
  by (simp add: create_chain_of_custody_record_def)

lemma new_audit_log_fields [simp]:
  "a_action (new_audit_log req s action rt rid uid det) = action"
  "a_timestamp (new_audit_log req s action rt rid uid det) = Some (utcnow req)"
  "a_user_id (new_audit_log req s action rt rid uid det) = uid"
  "a_resource_type (new_audit_log req s action rt rid uid det) = rt"
  "a_resource_id (new_audit_log req s action rt rid uid det) = rid"
  by (simp_all add: new_audit_log_def)

lemma audit_logs_store_upload:
  "prefix (audit_logs s) (audit_logs (fst (store_upload ev req user_id filename b s)))"
  by (simp add: store_upload_def Let_def split: option.splits)

lemma audit_logs_register: "prefix (audit_logs s) (audit_logs (fst (register ev req s)))"
  by (simp add: register_def Let_def split: option.splits bool.splits prod.splits)

lemma audit_logs_login: "prefix (audit_logs s) (audit_logs (fst (login ev req s)))"
  by (simp add: login_def Let_def split: option.splits)

lemma audit_logs_logout: "prefix (audit_logs s) (audit_logs (fst (logout ev req s)))"
  by (simp add: logout_def split: option.splits)

lemma audit_logs_change_password:
  "prefix (audit_logs s) (audit_logs (fst (change_password ev req s)))"
  by (simp add: change_password_def Let_def split: option.splits bool.splits prod.splits jval.splits)

lemma audit_logs_upload_document:
  "prefix (audit_logs s) (audit_logs (fst (upload_document ev req s)))"
  by (simp add: upload_document_def audit_logs_store_upload split: option.splits prod.splits)

lemma audit_logs_get_document:
  "prefix (audit_logs s) (audit_logs (fst (get_document ev req document_id s)))"
  by (simp add: get_document_def Let_def split: option.splits)

lemma audit_logs_download_document:
  "prefix (audit_logs s) (audit_logs (fst (download_document ev req document_id s)))"
  by (simp add: download_document_def Let_def split: option.splits)

lemma audit_logs_update_document:
  "prefix (audit_logs s) (audit_logs (fst (update_document ev req document_id s)))"
  by (simp add: update_document_def Let_def split: option.splits prod.splits)

lemma audit_logs_delete_document:
  "prefix (audit_logs s) (audit_logs (fst (delete_document ev req document_id s)))"
  by (cases rule: delete_document_cases[of req ev document_id s])
     (simp_all add: delete_effects_def)

lemma audit_logs_verify_document_integrity:
  "prefix (audit_logs s) (audit_logs (fst (verify_document_integrity ev req document_id s)))"
  by (simp add: verify_document_integrity_def Let_def split: option.splits)

lemma audit_logs_summarize_document:
  "prefix (audit_logs s) (audit_logs (fst (summarize_document ev req document_id s)))"
  by (simp add: summarize_document_def Let_def split: option.splits)

lemma audit_logs_redact_document:
  "prefix (audit_logs s) (audit_logs (fst (redact_document ev req document_id s)))"
  by (simp add: redact_document_def store_redactions_def Let_def
        split: option.splits prod.splits)

lemma audit_logs_generate_timeline:
  "prefix (audit_logs s) (audit_logs (fst (generate_timeline ev req document_id s)))"
  by (simp add: generate_timeline_def store_timeline_def Let_def split: option.splits)

lemma audit_logs_transcribe_document:
  "prefix (audit_logs s) (audit_logs (fst (transcribe_document ev req document_id s)))"
  by (simp add: transcribe_document_def Let_def split: option.splits)

lemma audit_logs_analyze_chat:
  "prefix (audit_logs s) (audit_logs (fst (analyze_chat ev req s)))"
  by (simp add: analyze_chat_def Let_def split: option.splits)

lemma audit_logs_get_forensic_data:
  "prefix (audit_logs s) (audit_logs (fst (get_forensic_data ev req resource_id s)))"
  by (simp add: get_forensic_data_def Let_def split: option.splits)

lemma audit_logs_get_audit_logs:
  "prefix (audit_logs s) (audit_logs (fst (get_audit_logs ev req s)))"
  by (simp add: get_audit_logs_def split: option.splits)

lemma audit_logs_export_analysis_data:
  "prefix (audit_logs s) (audit_logs (fst (export_analysis_data ev req s)))"
  by (simp add: export_analysis_data_def Let_def split: option.splits)

lemma audit_logs_handle: "prefix (audit_logs s) (audit_logs (fst (handle ev req op s)))"
  by (cases op)
     (simp_all add: audit_logs_register audit_logs_login audit_logs_logout
        audit_logs_change_password audit_logs_upload_document audit_logs_get_document
        audit_logs_download_document audit_logs_update_document audit_logs_delete_document
        audit_logs_verify_document_integrity audit_logs_summarize_document
        audit_logs_redact_document audit_logs_generate_timeline audit_logs_transcribe_document
        audit_logs_analyze_chat audit_logs_get_forensic_data audit_logs_get_audit_logs
        audit_logs_export_analysis_data)

text \<open>
  C4. The audit log is append-only. Every handler that writes returns a system whose audit
  table starts with the audit table it was given, entry for entry: no entry is changed or
  removed, and what a call adds comes after them. The same holds for any sequence of
  requests.
\<close>

theorem audit_log_append_only:
  "prefix (audit_logs s) (audit_logs (fst (handle ev req op s)))
   \<and> prefix (audit_logs s) (audit_logs (run ev calls s))"
proof
  show "prefix (audit_logs s) (audit_logs (fst (handle ev req op s)))"
    by (rule audit_logs_handle)
  show "prefix (audit_logs s) (audit_logs (run ev calls s))"
  proof (induction calls arbitrary: s)
    case Nil
    show ?case by simp
  next
    case (Cons call calls)
    obtain r o' where call: "call = (r, o')" by (cases call)
    have "prefix (audit_logs s) (audit_logs (fst (handle ev r o' s)))"
      by (rule audit_logs_handle)
    also have "prefix \<dots> (audit_logs (run ev calls (fst (handle ev r o' s))))"
      by (rule Cons.IH)
    finally show ?case by (simp add: call)
  qed
qed

section \<open>Integrity violations\<close>

lemma verify_document_integrity_checked:
  assumes "jwt_identity req = Some user_id" and "get_user s user_id = Some usr"
    and "get_owned_document s document_id user_id = Some doc"
    and "map_of (disk s) (d_file_path doc) = Some (content, mtime)"
  shows "verify_document_integrity ev req document_id s =
           (log_audit_event req ''document_integrity_verified'' ''document''
              (Some (str_nat document_id)) (Some user_id)
              (Some (JObj [(''filename'', JStr (d_original_filename doc)),
                           (''verified'', JBool (sha256_hexdigest ev content = d_content_hash doc)),
                           (''original_hash'', JStr (d_content_hash doc)),
                           (''current_hash'', JStr (sha256_hexdigest ev content))])) s,
            jsonify [(''verified'', JBool (sha256_hexdigest ev content = d_content_hash doc)),
                     (''original_hash'', JStr (d_content_hash doc)),
                     (''current_hash'', JStr (sha256_hexdigest ev content)),
                     (''file_size'', JNum (int (d_file_size doc))),
                     (''last_modified'', JStr (isoformat ev mtime))] 200)"
  using assms
  by (simp add: verify_document_integrity_def path_exists_def read_file_def getmtime_def Let_def
        calculate_file_hash_def)

lemma download_document_violation:
  assumes "jwt_identity req = Some user_id" and "get_user s user_id = Some usr"
    and "get_owned_document s document_id user_id = Some doc"
    and "map_of (disk s) (d_file_path doc) = Some (content, mtime)"
    and "sha256_hexdigest ev content \<noteq> d_content_hash doc"
  shows "download_document ev req document_id s =
           (log_audit_event req ''document_integrity_violation'' ''document''
              (Some (str_nat document_id)) (Some user_id)
              (Some (JObj [(''filename'', JStr (d_original_filename doc)),
                           (''expected_hash'', JStr (d_content_hash doc)),
                           (''actual_hash'', JStr (sha256_hexdigest ev content))])) s,
            error_response ''Document integrity check failed'' 500)"
  using assms
  by (auto simp add: download_document_def path_exists_def read_file_def Let_def
        calculate_file_hash_def verify_integrity_def calculate_hash_def)

lemma new_entries_log_audit_event [simp]:
  "new_entries s (log_audit_event req action rt rid uid det s)
     = [new_audit_log req s action rt rid uid det]"
  by (simp add: new_entries_def)

lemma tampered_system_facts:
  "get_user tampered_system 2 = Some bob"
  "get_owned_document tampered_system 1 2 = Some memo_document"
  "map_of (disk tampered_system) (d_file_path memo_document) = Some (''SSN: 987-65-4321'', 4500)"
  "sha256_hexdigest example_env ''SSN: 987-65-4321'' \<noteq> d_content_hash memo_document"
  by (simp_all add: tampered_system_def get_user_def get_owned_document_def example_memo_users
        example_memo_documents' memo_document_fields alice_def bob_def carol_def example_env_def
        memo_def)

text \<open>
  C2 at a concrete input: Bob's file has been overwritten on disk, so that its bytes no
  longer hash to the stored content hash. The verify endpoint answers 200 with
  \<open>verified = false\<close>, and the one audit entry it writes has the action
  \<open>document_integrity_verified\<close>: no entry named as an integrity violation is written.
  The download endpoint, on the same system, writes \<open>document_integrity_violation\<close> and
  answers 500.
\<close>

theorem verify_mismatch_audit_entry:
  "status (snd (verify_document_integrity example_env (request_of 2 5000) 1 tampered_system)) = 200
   \<and> response_field (snd (verify_document_integrity example_env (request_of 2 5000) 1
                             tampered_system)) ''verified'' = Some (JBool False)
   \<and> map a_action (new_entries tampered_system
                      (fst (verify_document_integrity example_env (request_of 2 5000) 1
                              tampered_system)))
       = [''document_integrity_verified'']
   \<and> status (snd (download_document example_env (request_of 2 5000) 1 tampered_system)) = 500
   \<and> map a_action (new_entries tampered_system
                      (fst (download_document example_env (request_of 2 5000) 1 tampered_system)))
       = [''document_integrity_violation'']"
proof -
  have token: "jwt_identity (request_of 2 5000) = Some 2"
    by (simp add: request_of_def)
  note v = verify_document_integrity_checked[OF token tampered_system_facts(1-3), of example_env]
  note d = download_document_violation[OF token tampered_system_facts(1-4)]
  show ?thesis
    unfolding v d using tampered_system_facts(4) by simp
qed

section \<open>Audit entries of the state-changing calls\<close>

lemma audit_trail_append:
  "audit_logs s' = audit_logs s @ es \<Longrightarrow>
   audit_trail s s' = map (\<lambda>e. (a_action e, a_timestamp e)) es"
  by (simp add: audit_trail_def new_entries_def)

lemma store_upload_trail:
  "status (snd (store_upload ev req user_id filename b s)) = 201 \<Longrightarrow>
   audit_trail s (fst (store_upload ev req user_id filename b s))
     = [(''chain_of_custody_uploaded'', Some (utcnow req)), (''document_uploaded'', Some (utcnow req))]"
  by (auto simp: store_upload_def Let_def audit_trail_def new_entries_def split: option.splits)

lemma upload_document_trail:
  assumes "status (snd (upload_document ev req s)) = 201"
  shows "audit_trail s (fst (upload_document ev req s))
     = [(''chain_of_custody_uploaded'', Some (utcnow req)), (''document_uploaded'', Some (utcnow req))]"
proof -
  from assms obtain user_id usr filename b where
    eq: "upload_document ev req s = store_upload ev req user_id filename b s"
    by (rule upload_success_shape)
  with assms show ?thesis by (simp add: store_upload_trail)
qed

lemma delete_document_trail:
  assumes "status (snd (delete_document ev req document_id s)) = 200"
  shows "audit_trail s (fst (delete_document ev req document_id s))
     = [(''chain_of_custody_deleted'', Some (utcnow req)), (''document_deleted'', Some (utcnow req))]"
  using assms
proof (cases rule: delete_document_cases[of req ev document_id s])
  case (deleted user_id usr doc doc_info)
  show ?thesis
    unfolding deleted(5)
    by (simp add: audit_trail_def new_entries_def delete_effects_def)
qed simp_all

lemma login_trail:
  "status (snd (login ev req s)) = 200 \<Longrightarrow>
   audit_trail s (fst (login ev req s)) = [(''login_successful'', Some (utcnow req))]"
  by (auto simp: login_def Let_def audit_trail_def new_entries_def split: option.splits if_splits)

lemma store_redactions_trail:
  "audit_trail s (fst (store_redactions ev req user_id document_id doc rtype rtext redacted made s))
     = [(''chain_of_custody_redacted'', Some (utcnow req)), (''document_redacted'', Some (utcnow req))]"
  by (simp add: audit_trail_def new_entries_def store_redactions_def Let_def)

lemma redact_document_success:
  assumes "status (snd (redact_document ev req document_id s)) = 200"
  obtains user_id doc rtype rtext redacted made where
    "redact_document ev req document_id s
       = store_redactions ev req user_id document_id doc rtype rtext redacted made s"
proof -
  from assms obtain user_id where uid: "jwt_identity req = Some user_id"
    by (cases "jwt_identity req") (auto simp: redact_document_def)
  from assms uid obtain usr where usr: "get_user s user_id = Some usr"
    by (cases "get_user s user_id") (auto simp: redact_document_def)
  from assms uid usr obtain doc where doc: "get_owned_document s document_id user_id = Some doc"
    by (cases "get_owned_document s document_id user_id") (auto simp: redact_document_def)
  from assms uid usr doc have ex: "path_exists s (d_file_path doc)"
    by (auto simp: redact_document_def split: if_splits)
  from assms uid usr doc ex obtain t where
    t: "extract_text_from_file ev s (d_file_path doc) (d_file_type doc) = Some (Some t)" "t \<noteq> []"
    by (cases "extract_text_from_file ev s (d_file_path doc) (d_file_type doc)")
       (auto simp: redact_document_def split: option.splits if_splits)
  from assms uid usr doc ex t obtain rtype where
    rtype: "get_str (json_or_empty req) ''redaction_type'' ''pii'' = Some rtype"
    by (cases "get_str (json_or_empty req) ''redaction_type'' ''pii''")
       (auto simp: redact_document_def)
  from assms uid usr doc ex t rtype obtain rtext where
    rtext: "get_str (json_or_empty req) ''redaction_text'' ''***REDACTED***'' = Some rtext"
    by (cases "get_str (json_or_empty req) ''redaction_text'' ''***REDACTED***''")
       (auto simp: redact_document_def)
  from assms uid usr doc ex t rtype rtext obtain redacted made where
    out: "apply_redaction ev req rtype rtext t = Some (redacted, made)"
    by (cases "apply_redaction ev req rtype rtext t") (auto simp: redact_document_def)
  have "redact_document ev req document_id s
          = store_redactions ev req user_id document_id doc rtype rtext redacted made s"
    using uid usr doc ex t rtype rtext out by (simp add: redact_document_def)
  then show thesis by (rule that)
qed

lemma redact_document_trail:
  assumes "status (snd (redact_document ev req document_id s)) = 200"
  shows "audit_trail s (fst (redact_document ev req document_id s))
     = [(''chain_of_custody_redacted'', Some (utcnow req)), (''document_redacted'', Some (utcnow req))]"
proof -
  from assms obtain user_id doc rtype rtext redacted made where
    "redact_document ev req document_id s
       = store_redactions ev req user_id document_id doc rtype rtext redacted made s"
    by (rule redact_document_success)
  then show ?thesis by (simp add: store_redactions_trail)
qed

lemma export_analysis_data_trail:
  assumes "status (snd (export_analysis_data ev req s)) = 200"
  shows "audit_trail s (fst (export_analysis_data ev req s))
           = [(''data_exported'', Some (utcnow req))]"
proof -
  from assms obtain user_id where uid: "jwt_identity req = Some user_id"
    by (cases "jwt_identity req") (auto simp: export_analysis_data_def)
  from assms uid obtain usr where usr: "get_user s user_id = Some usr"
    by (cases "get_user s user_id") (auto simp: export_analysis_data_def)
  from assms uid usr have role: "u_role usr \<in> set [''admin'', ''forensic_analyst'']"
    by (auto simp: export_analysis_data_def split: if_splits)
  from assms uid usr role obtain part where
    part: "export_documents ev (export_type_of req) user_id s = Some part"
    by (cases "export_documents ev (export_type_of req) user_id s")
       (auto simp: export_analysis_data_def Let_def)
  show ?thesis
    using uid usr role part
    by (auto simp: export_analysis_data_def Let_def audit_trail_def new_entries_def)
qed

text \<open>
  C3, as amended. A successful call of upload (201), delete, login, redact or export (200)
  leaves the earlier audit entries as they are and adds entries whose timestamp is set;
  exactly one of them bears the endpoint's own action (\<open>document_uploaded\<close>,
  \<open>document_deleted\<close>, \<open>login_successful\<close>, \<open>document_redacted\<close>, \<open>data_exported\<close>).
  Upload, delete and redact add a second entry before it, the chain-of-custody record of
  the action, so these calls produce two audit rows; login and export produce one.
\<close>

theorem audit_entries_of_successful_calls:
  "(status (snd (upload_document ev req s)) = 201 \<longrightarrow>
      prefix (audit_logs s) (audit_logs (fst (upload_document ev req s)))
      \<and> audit_trail s (fst (upload_document ev req s))
          = [(''chain_of_custody_uploaded'', Some (utcnow req)),
             (''document_uploaded'', Some (utcnow req))])
   \<and> (status (snd (delete_document ev req document_id s)) = 200 \<longrightarrow>
      prefix (audit_logs s) (audit_logs (fst (delete_document ev req document_id s)))
      \<and> audit_trail s (fst (delete_document ev req document_id s))
          = [(''chain_of_custody_deleted'', Some (utcnow req)),
             (''document_deleted'', Some (utcnow req))])
   \<and> (status (snd (login ev req s)) = 200 \<longrightarrow>
      prefix (audit_logs s) (audit_logs (fst (login ev req s)))
      \<and> audit_trail s (fst (login ev req s)) = [(''login_successful'', Some (utcnow req))])
   \<and> (status (snd (redact_document ev req document_id s)) = 200 \<longrightarrow>
      prefix (audit_logs s) (audit_logs (fst (redact_document ev req document_id s)))
      \<and> audit_trail s (fst (redact_document ev req document_id s))
          = [(''chain_of_custody_redacted'', Some (utcnow req)),
             (''document_redacted'', Some (utcnow req))])
   \<and> (status (snd (export_analysis_data ev req s)) = 200 \<longrightarrow>
      prefix (audit_logs s) (audit_logs (fst (export_analysis_data ev req s)))
      \<and> audit_trail s (fst (export_analysis_data ev req s))
          = [(''data_exported'', Some (utcnow req))])"
  by (intro conjI impI audit_logs_upload_document audit_logs_delete_document audit_logs_login
        audit_logs_redact_document audit_logs_export_analysis_data upload_document_trail
        delete_document_trail login_trail redact_document_trail export_analysis_data_trail)

lemma example_delete_status:
  "status (snd (delete_document example_env (request_of 2 4000) 1 system_with_memo)) = 200"
proof -
  have token: "jwt_identity (request_of 2 4000) = Some 2"
    by (simp add: request_of_def)
  have owned: "get_owned_document system_with_memo 1 2 = Some memo_document"
    by (simp add: get_owned_document_def example_memo_documents' memo_document_fields)
  obtain doc_info where info: "document_to_dict example_env memo_document = Some doc_info"
    using memo_document_to_dict by blast
  have role: "u_role bob \<in> set [''admin'', ''forensic_analyst'']"
    by (simp add: bob_def)
  show ?thesis
    using delete_document_owned[OF token example_memo_get_user(2) role owned info]
      example_memo_no_dependents by simp
qed

lemma example_login_status:
  "status (snd (login example_env
                  (json_request 0 3000 [(''username'', JStr ''alice ''), (''password'', JStr ''Secret#2024'')])
                  system_with_memo)) = 200"
  by (simp add: login_def Let_def get_str_def as_str_def strip_def lower_def lower_char_def
        in_range_def ord_def is_space_def example_memo_users alice_def bob_def carol_def
        json_request_def request_of_def example_env_def)

lemma redact_text_nonempty:
  "text \<noteq> [] \<Longrightarrow> \<exists>t r. redact_text text marker = Redacted t r"
  by (simp add: redact_text_def split: prod.splits)

lemma example_memo_disk:
  "map_of (disk system_with_memo) (d_file_path memo_document) = Some (memo, 2000)"
  using store_upload_success(3)[OF example_store_status]
  unfolding system_with_memo_def example_upload memo_document_def
  by (simp add: upload_request_def request_of_def)

lemma example_redact_status:
  "status (snd (redact_document example_env (request_of 2 5000) 1 system_with_memo)) = 200"
proof -
  have token: "jwt_identity (request_of 2 5000) = Some 2"
    by (simp add: request_of_def)
  have owned: "get_owned_document system_with_memo 1 2 = Some memo_document"
    by (simp add: get_owned_document_def example_memo_documents' memo_document_fields)
  have present: "path_exists system_with_memo (d_file_path memo_document)"
    by (simp add: path_exists_def example_memo_disk)
  have extracted: "extract_text_from_file example_env system_with_memo (d_file_path memo_document)
                (d_file_type memo_document) = Some (Some memo)"
    using example_memo_disk
    by (simp add: extract_text_from_file_def read_file_def memo_document_fields endswith_def
          lower_def lower_char_def in_range_def ord_def example_env_def)
  have nonempty: "memo \<noteq> []" by (simp add: memo_def)
  have fields: "get_str (json_or_empty (request_of 2 5000)) ''redaction_type'' ''pii'' = Some ''pii''"
    "get_str (json_or_empty (request_of 2 5000)) ''redaction_text'' ''***REDACTED***''
       = Some ''***REDACTED***''"
    by (simp_all add: get_str_def json_or_empty_def request_of_def)
  obtain t r where "redact_text memo ''***REDACTED***'' = Redacted t r"
    using redact_text_nonempty[OF nonempty] by blast
  then have out: "apply_redaction example_env (request_of 2 5000) ''pii'' ''***REDACTED***'' memo
                    = Some (t, r)"
    by (simp add: apply_redaction_def Let_def)
  have "redact_document example_env (request_of 2 5000) 1 system_with_memo
          = store_redactions example_env (request_of 2 5000) 2 1 memo_document ''pii''
              ''***REDACTED***'' t r system_with_memo"
    using token example_memo_get_user(2) owned present extracted nonempty fields out
    by (simp add: redact_document_def)
  then show ?thesis by (simp add: store_redactions_def Let_def)
qed

lemma example_export_status:
  "status (snd (export_analysis_data example_env (request_of 2 6000) system_with_memo)) = 200"
proof -
  have token: "jwt_identity (request_of 2 6000) = Some 2"
    by (simp add: request_of_def)
  have role: "u_role bob \<in> set [''admin'', ''forensic_analyst'']"
    by (simp add: bob_def)
  have "export_documents example_env (export_type_of (request_of 2 6000)) 2 system_with_memo \<noteq> None"
    using memo_document_to_dict
    by (auto simp: export_documents_def export_type_of_def json_or_empty_def request_of_def
          example_memo_documents' memo_document_fields)
  then obtain part where
    "export_documents example_env (export_type_of (request_of 2 6000)) 2 system_with_memo = Some part"
    by blast
  then show ?thesis
    using token example_memo_get_user(2) role
    by (simp add: export_analysis_data_def Let_def)
qed

theorem audit_entries_of_successful_calls_witness:
  "audit_trail empty_system
     (fst (upload_document example_env (upload_request 2 2000 ''memo.txt'' memo) empty_system))
     = [(''chain_of_custody_uploaded'', Some 2000), (''document_uploaded'', Some 2000)]
   \<and> audit_trail system_with_memo
        (fst (delete_document example_env (request_of 2 4000) 1 system_with_memo))
     = [(''chain_of_custody_deleted'', Some 4000), (''document_deleted'', Some 4000)]
   \<and> audit_trail system_with_memo
        (fst (login example_env
                (json_request 0 3000 [(''username'', JStr ''alice ''), (''password'', JStr ''Secret#2024'')])
                system_with_memo))
     = [(''login_successful'', Some 3000)]
   \<and> audit_trail system_with_memo
        (fst (redact_document example_env (request_of 2 5000) 1 system_with_memo))
     = [(''chain_of_custody_redacted'', Some 5000), (''document_redacted'', Some 5000)]
   \<and> audit_trail system_with_memo
        (fst (export_analysis_data example_env (request_of 2 6000) system_with_memo))
     = [(''data_exported'', Some 6000)]"
proof -
  note up = audit_entries_of_successful_calls
              [of example_env "upload_request 2 2000 ''memo.txt'' memo" empty_system]
  note del = audit_entries_of_successful_calls
               [of example_env "request_of 2 4000" system_with_memo 1]
  note log = audit_entries_of_successful_calls
               [of example_env
                   "json_request 0 3000 [(''username'', JStr ''alice ''), (''password'', JStr ''Secret#2024'')]"
                   system_with_memo]
  note red = audit_entries_of_successful_calls
               [of example_env "request_of 2 5000" system_with_memo 1]
  note exp = audit_entries_of_successful_calls
               [of example_env "request_of 2 6000" system_with_memo]
  have times:
    "utcnow (upload_request 2 2000 ''memo.txt'' memo) = 2000" "utcnow (request_of 2 4000) = 4000"
    "utcnow (json_request 0 3000 [(''username'', JStr ''alice ''), (''password'', JStr ''Secret#2024'')])
       = 3000"
    "utcnow (request_of 2 5000) = 5000" "utcnow (request_of 2 6000) = 6000"
    by (simp_all add: upload_request_def json_request_def request_of_def)
  from up example_upload_status have 1:
    "audit_trail empty_system
       (fst (upload_document example_env (upload_request 2 2000 ''memo.txt'' memo) empty_system))
       = [(''chain_of_custody_uploaded'', Some 2000), (''document_uploaded'', Some 2000)]"
    unfolding times by blast
  from del example_delete_status have 2:
    "audit_trail system_with_memo
        (fst (delete_document example_env (request_of 2 4000) 1 system_with_memo))
     = [(''chain_of_custody_deleted'', Some 4000), (''document_deleted'', Some 4000)]"
    unfolding times by blast
  from log example_login_status have 3:
    "audit_trail system_with_memo
        (fst (login example_env
                (json_request 0 3000 [(''username'', JStr ''alice ''), (''password'', JStr ''Secret#2024'')])
                system_with_memo))
     = [(''login_successful'', Some 3000)]"
    unfolding times by blast
  from red example_redact_status have 4:
    "audit_trail system_with_memo
        (fst (redact_document example_env (request_of 2 5000) 1 system_with_memo))
     = [(''chain_of_custody_redacted'', Some 5000), (''document_redacted'', Some 5000)]"
    unfolding times by blast
  from exp example_export_status have 5:
    "audit_trail system_with_memo
        (fst (export_analysis_data example_env (request_of 2 6000) system_with_memo))
     = [(''data_exported'', Some 6000)]"
    unfolding times by blast
  from 1 2 3 4 5 show ?thesis by blast
qed

text \<open>
  C3 as stated fails at the upload of \<open>memo.txt\<close>: the call succeeds and adds two audit
  entries, not one.
\<close>

theorem upload_adds_two_audit_entries:
  "status (snd (upload_document example_env (upload_request 2 2000 ''memo.txt'' memo) empty_system))
     = 201
   \<and> length (new_entries empty_system
               (fst (upload_document example_env (upload_request 2 2000 ''memo.txt'' memo)
                       empty_system))) = 2
   \<and> \<not> (\<exists>e. new_entries empty_system
               (fst (upload_document example_env (upload_request 2 2000 ''memo.txt'' memo)
                       empty_system)) = [e])"
proof -
  let ?entries = "new_entries empty_system
                    (fst (upload_document example_env (upload_request 2 2000 ''memo.txt'' memo)
                            empty_system))"
  have trail: "map (\<lambda>e. (a_action e, a_timestamp e)) ?entries
        = [(''chain_of_custody_uploaded'', Some (utcnow (upload_request 2 2000 ''memo.txt'' memo))),
           (''document_uploaded'', Some (utcnow (upload_request 2 2000 ''memo.txt'' memo)))]"
    using upload_document_trail[OF example_upload_status] by (simp only: audit_trail_def)
  have "length (map (\<lambda>e. (a_action e, a_timestamp e)) ?entries) = 2"
    unfolding trail by simp
  then have two: "length ?entries = 2"
    by (simp only: length_map)
  have not_one: "\<not> (\<exists>e. ?entries = [e])"
  proof
    assume "\<exists>e. ?entries = [e]"
    then obtain e where "?entries = [e]" ..
    then have "length ?entries = 1" by (simp only: list.size One_nat_def add_0)
    with two show False by (simp only: numeral_eq_one_iff num.simps)
  qed
  show ?thesis
    by (intro conjI example_upload_status two not_one)
qed

section \<open>Password strength at registration and password change\<close>








section \<open>Regenerating a timeline\<close>

lemma timeline_rows_events:
  "map (\<lambda>r. (t_event_date r, t_event_description r, t_confidence_score r))
     (timeline_rows k document_id now events) = events"
  by (induction k document_id now events rule: timeline_rows.induct) simp_all

lemma timeline_rows_document:
  "r \<in> set (timeline_rows k document_id now events) \<Longrightarrow> t_document_id r = document_id"
  by (induction k document_id now events rule: timeline_rows.induct) auto

lemma filter_timeline_rows_same:
  "filter (\<lambda>r. t_document_id r = document_id) (timeline_rows k document_id now events)
     = timeline_rows k document_id now events"
  by (simp add: filter_id_conv timeline_rows_document)

lemma filter_timeline_rows_other:
  "other \<noteq> document_id \<Longrightarrow>
   filter (\<lambda>r. t_document_id r = other) (timeline_rows k document_id now events) = []"
  by (auto simp: filter_empty_conv dest: timeline_rows_document)

lemma store_timeline_timelines:
  "timelines (fst (store_timeline ev req user_id document_id doc events s))
     = filter (\<lambda>r. t_document_id r \<noteq> document_id) (timelines s)
       @ timeline_rows
           (next_id (map t_id (filter (\<lambda>r. t_document_id r \<noteq> document_id) (timelines s))))
           document_id (utcnow req) events"
  by (simp add: store_timeline_def Let_def)

lemma store_timeline_frame [simp]:
  "documents (fst (store_timeline ev req user_id document_id doc events s)) = documents s"
  "users (fst (store_timeline ev req user_id document_id doc events s)) = users s"
  "disk (fst (store_timeline ev req user_id document_id doc events s)) = disk s"
  "status (snd (store_timeline ev req user_id document_id doc events s)) = 200"
  by (simp_all add: store_timeline_def Let_def)

lemma store_timeline_stored_events:
  "stored_events (fst (store_timeline ev req user_id document_id doc events s)) document_id = events"
  by (simp add: stored_events_def store_timeline_timelines filter_timeline_rows_same
        timeline_rows_events)

lemma store_timeline_other_documents:
  "other \<noteq> document_id \<Longrightarrow>
   stored_events (fst (store_timeline ev req user_id document_id doc events s)) other
     = stored_events s other"
proof -
  assume other: "other \<noteq> document_id"
  have "filter (\<lambda>r. t_document_id r = other)
          (filter (\<lambda>r. t_document_id r \<noteq> document_id) (timelines s))
        = filter (\<lambda>r. t_document_id r = other) (timelines s)"
    using other by (auto intro: filter_cong)
  then show ?thesis
    using other
    by (simp add: stored_events_def store_timeline_timelines filter_timeline_rows_other)
qed

text \<open>The outcomes of \<open>generate_timeline\<close>: either the request is turned down and the system
  is returned as it was, or the events extracted from the document's text are stored.\<close>

lemma generate_timeline_cases:
  obtains
    (refused) "fst (generate_timeline ev req document_id s) = s"
      "status (snd (generate_timeline ev req document_id s)) \<noteq> 200"
  | (stored) user_id usr doc text_content where
      "jwt_identity req = Some user_id" "get_user s user_id = Some usr"
      "get_owned_document s document_id user_id = Some doc"
      "extract_text_from_file ev s (d_file_path doc) (d_file_type doc) = Some (Some text_content)"
      "generate_timeline ev req document_id s
         = store_timeline ev req user_id document_id doc
             (extract_timeline_events_basic ev text_content) s"
proof (cases "jwt_identity req")
  case None
  show thesis by (rule refused) (simp_all add: generate_timeline_def None)
next
  case uid: (Some user_id)
  show thesis
  proof (cases "get_user s user_id")
    case None
    show thesis by (rule refused) (simp_all add: generate_timeline_def uid None)
  next
    case usr: (Some usr)
    show thesis
    proof (cases "get_owned_document s document_id user_id")
      case None
      show thesis by (rule refused) (simp_all add: generate_timeline_def uid usr None)
    next
      case doc: (Some doc)
      show thesis
      proof (cases "path_exists s (d_file_path doc)")
        case False
        show thesis by (rule refused) (simp_all add: generate_timeline_def uid usr doc False)
      next
        case present: True
        show thesis
        proof (cases "extract_text_from_file ev s (d_file_path doc) (d_file_type doc)")
          case None
          show thesis
            by (rule refused) (simp_all add: generate_timeline_def uid usr doc present None)
        next
          case outer: (Some extracted)
          show thesis
          proof (cases extracted)
            case None
            show thesis
              by (rule refused) (simp_all add: generate_timeline_def uid usr doc present outer None)
          next
            case inner: (Some text_content)
            show thesis
            proof (cases "text_content = []")
              case True
              show thesis
                by (rule refused)
                   (simp_all add: generate_timeline_def uid usr doc present outer inner True)
            next
              case False
              show thesis
                by (rule stored[OF uid usr doc])
                   (simp_all add: generate_timeline_def uid usr doc present outer inner False)
            qed
          qed
        qed
      qed
    qed
  qed
qed

lemma extract_text_from_file_cong:
  "disk s' = disk s \<Longrightarrow> extract_text_from_file ev s' = extract_text_from_file ev s"
  by (simp add: extract_text_from_file_def read_file_def fun_eq_iff)

lemma get_owned_document_cong:
  "documents s' = documents s \<Longrightarrow> get_owned_document s' = get_owned_document s"
  by (simp add: get_owned_document_def fun_eq_iff)

text \<open>
  C8. A timeline-generation call that succeeds (status 200) deletes the rows stored for
  the document and inserts the events extracted from the document's text: afterwards the
  stored timeline of the document is exactly that extraction result, and the rows of
  other documents are as before. A second successful call on the result, by the same
  caller, stores the same events again in place of the first ones, so nothing
  accumulates. A call that does not succeed leaves the timeline table as it was.
\<close>

theorem timeline_is_replaced:
  "(status (snd (generate_timeline ev req document_id s)) = 200 \<longrightarrow>
      (\<exists>user_id doc text_content.
          jwt_identity req = Some user_id
        \<and> get_owned_document s document_id user_id = Some doc
        \<and> extract_text_from_file ev s (d_file_path doc) (d_file_type doc) = Some (Some text_content)
        \<and> stored_events (fst (generate_timeline ev req document_id s)) document_id
             = extract_timeline_events_basic ev text_content)
      \<and> (\<forall>other. other \<noteq> document_id \<longrightarrow>
             stored_events (fst (generate_timeline ev req document_id s)) other
               = stored_events s other))
   \<and> (status (snd (generate_timeline ev req document_id s)) = 200
        \<and> jwt_identity req' = jwt_identity req
        \<and> status (snd (generate_timeline ev req' document_id
                          (fst (generate_timeline ev req document_id s)))) = 200
       \<longrightarrow> stored_events (fst (generate_timeline ev req' document_id
                                 (fst (generate_timeline ev req document_id s)))) document_id
             = stored_events (fst (generate_timeline ev req document_id s)) document_id)
   \<and> (status (snd (generate_timeline ev req document_id s)) \<noteq> 200 \<longrightarrow>
        timelines (fst (generate_timeline ev req document_id s)) = timelines s)"
proof (intro conjI impI)
  assume ok: "status (snd (generate_timeline ev req document_id s)) = 200"
  then show "\<exists>user_id doc text_content.
          jwt_identity req = Some user_id
        \<and> get_owned_document s document_id user_id = Some doc
        \<and> extract_text_from_file ev s (d_file_path doc) (d_file_type doc) = Some (Some text_content)
        \<and> stored_events (fst (generate_timeline ev req document_id s)) document_id
             = extract_timeline_events_basic ev text_content"
  proof (cases rule: generate_timeline_cases[of ev req document_id s])
    case refused
    with ok show ?thesis by simp
  next
    case (stored user_id usr doc text_content)
    then show ?thesis by (auto simp: store_timeline_stored_events)
  qed
  from ok show "\<forall>other. other \<noteq> document_id \<longrightarrow>
             stored_events (fst (generate_timeline ev req document_id s)) other
               = stored_events s other"
  proof (cases rule: generate_timeline_cases[of ev req document_id s])
    case refused
    with ok show ?thesis by simp
  next
    case (stored user_id usr doc text_content)
    then show ?thesis by (simp add: store_timeline_other_documents)
  qed
next
  assume a: "status (snd (generate_timeline ev req document_id s)) = 200
        \<and> jwt_identity req' = jwt_identity req
        \<and> status (snd (generate_timeline ev req' document_id
                          (fst (generate_timeline ev req document_id s)))) = 200"
  define s' where "s' = fst (generate_timeline ev req document_id s)"
  from a have ok: "status (snd (generate_timeline ev req document_id s)) = 200"
    and same: "jwt_identity req' = jwt_identity req"
    and ok': "status (snd (generate_timeline ev req' document_id s')) = 200"
    by (simp_all add: s'_def)
  from ok obtain user_id usr doc text_content where first:
      "jwt_identity req = Some user_id"
      "get_owned_document s document_id user_id = Some doc"
      "extract_text_from_file ev s (d_file_path doc) (d_file_type doc) = Some (Some text_content)"
      "generate_timeline ev req document_id s
         = store_timeline ev req user_id document_id doc
             (extract_timeline_events_basic ev text_content) s"
    by (cases rule: generate_timeline_cases[of ev req document_id s]) simp_all
  have frame: "documents s' = documents s" "disk s' = disk s"
    by (simp_all add: s'_def first(4))
  from ok' obtain user_id' usr' doc' text_content' where second:
      "jwt_identity req' = Some user_id'"
      "get_owned_document s' document_id user_id' = Some doc'"
      "extract_text_from_file ev s' (d_file_path doc') (d_file_type doc') = Some (Some text_content')"
      "generate_timeline ev req' document_id s'
         = store_timeline ev req' user_id' document_id doc'
             (extract_timeline_events_basic ev text_content') s'"
    by (cases rule: generate_timeline_cases[of ev req' document_id s']) simp_all
  from same first(1) second(1) have "user_id' = user_id" by simp
  with first(2) second(2) have "doc' = doc"
    by (simp add: get_owned_document_cong[OF frame(1)])
  with first(3) second(3) have "text_content' = text_content"
    by (simp add: extract_text_from_file_cong[OF frame(2)])
  moreover have "stored_events (fst (generate_timeline ev req' document_id s')) document_id
        = extract_timeline_events_basic ev text_content'"
    unfolding second(4) by (rule store_timeline_stored_events)
  moreover have "stored_events s' document_id = extract_timeline_events_basic ev text_content"
    unfolding s'_def first(4) by (rule store_timeline_stored_events)
  ultimately have "stored_events (fst (generate_timeline ev req' document_id s')) document_id
        = stored_events s' document_id"
    by (simp only:)
  then show "stored_events (fst (generate_timeline ev req' document_id
                                 (fst (generate_timeline ev req document_id s)))) document_id
             = stored_events (fst (generate_timeline ev req document_id s)) document_id"
    by (simp add: s'_def)
next
  assume "status (snd (generate_timeline ev req document_id s)) \<noteq> 200"
  then show "timelines (fst (generate_timeline ev req document_id s)) = timelines s"
    by (cases rule: generate_timeline_cases[of ev req document_id s]) simp_all
qed
lemma example_memo_owned: "get_owned_document system_with_memo 1 2 = Some memo_document"
  by (simp add: get_owned_document_def example_memo_documents' memo_document_fields)

lemma example_memo_present: "path_exists system_with_memo (d_file_path memo_document)"
  by (simp add: path_exists_def example_memo_disk)

lemma example_memo_text:
  "extract_text_from_file example_env system_with_memo (d_file_path memo_document)
     (d_file_type memo_document) = Some (Some memo)"
  using example_memo_disk
  by (simp add: extract_text_from_file_def read_file_def memo_document_fields endswith_def
        lower_def lower_char_def in_range_def ord_def example_env_def)

lemma example_timeline:
  "generate_timeline example_env (request_of 2 8000) 1 system_with_memo
     = store_timeline example_env (request_of 2 8000) 2 1 memo_document
         (extract_timeline_events_basic example_env memo) system_with_memo"
proof -
  have token: "jwt_identity (request_of 2 8000) = Some 2"
    by (simp add: request_of_def)
  have nonempty: "memo \<noteq> []" by (simp add: memo_def)
  show ?thesis
    using token example_memo_get_user(2) example_memo_owned example_memo_present
      example_memo_text nonempty
    by (simp add: generate_timeline_def)
qed

lemma example_timeline_again:
  "status (snd (generate_timeline example_env (request_of 2 9000) 1
                  (fst (generate_timeline example_env (request_of 2 8000) 1 system_with_memo))))
     = 200"
proof -
  define s1 where
    "s1 = fst (store_timeline example_env (request_of 2 8000) 2 1 memo_document
                 (extract_timeline_events_basic example_env memo) system_with_memo)"
  have frame: "users s1 = users system_with_memo" "documents s1 = documents system_with_memo"
    "disk s1 = disk system_with_memo"
    by (simp_all add: s1_def)
  have token: "jwt_identity (request_of 2 9000) = Some 2"
    by (simp add: request_of_def)
  have usr: "get_user s1 2 = Some bob"
    using example_memo_get_user(2) by (simp add: get_user_cong[OF frame(1)])
  have owned: "get_owned_document s1 1 2 = Some memo_document"
    using example_memo_owned by (simp add: get_owned_document_cong[OF frame(2)])
  have present: "path_exists s1 (d_file_path memo_document)"
    using example_memo_present by (simp add: path_exists_def frame(3))
  have extracted: "extract_text_from_file example_env s1 (d_file_path memo_document)
                     (d_file_type memo_document) = Some (Some memo)"
    using example_memo_text by (simp add: extract_text_from_file_cong[OF frame(3)])
  have nonempty: "memo \<noteq> []" by (simp add: memo_def)
  have "generate_timeline example_env (request_of 2 9000) 1 s1
          = store_timeline example_env (request_of 2 9000) 2 1 memo_document
              (extract_timeline_events_basic example_env memo) s1"
    using token usr owned present extracted nonempty by (simp add: generate_timeline_def)
  then show ?thesis
    unfolding example_timeline s1_def by simp
qed

lemma example_timeline_refused:
  "status (snd (generate_timeline example_env (request_of 1 8000) 1 system_with_memo)) = 404"
proof -
  have token: "jwt_identity (request_of 1 8000) = Some 1"
    by (simp add: request_of_def)
  have "get_owned_document system_with_memo 1 1 = None"
    by (simp add: get_owned_document_def example_memo_documents' memo_document_fields)
  with token example_memo_get_user(1) show ?thesis
    by (simp add: generate_timeline_def)
qed

theorem timeline_is_replaced_witness:
  "status (snd (generate_timeline example_env (request_of 2 8000) 1 system_with_memo)) = 200
   \<and> stored_events (fst (generate_timeline example_env (request_of 2 8000) 1 system_with_memo)) 1
       = [(1700000000, memo, 0.7)]
   \<and> status (snd (generate_timeline example_env (request_of 2 9000) 1
                     (fst (generate_timeline example_env (request_of 2 8000) 1 system_with_memo))))
       = 200
   \<and> stored_events
        (fst (generate_timeline example_env (request_of 2 9000) 1
                (fst (generate_timeline example_env (request_of 2 8000) 1 system_with_memo)))) 1
       = [(1700000000, memo, 0.7)]
   \<and> status (snd (generate_timeline example_env (request_of 1 8000) 1 system_with_memo)) = 404
   \<and> timelines (fst (generate_timeline example_env (request_of 1 8000) 1 system_with_memo))
       = timelines system_with_memo"
proof -
  note inst = timeline_is_replaced[of example_env "request_of 2 8000" 1 system_with_memo
               "request_of 2 9000"]
  note refused_inst = timeline_is_replaced[of example_env "request_of 1 8000" 1 system_with_memo]
  have first: "status (snd (generate_timeline example_env (request_of 2 8000) 1 system_with_memo))
                 = 200"
    unfolding example_timeline by simp
  have same: "jwt_identity (request_of 2 9000) = jwt_identity (request_of 2 8000)"
    by (simp add: request_of_def)
  from inst first obtain user_id doc text_content where got:
      "jwt_identity (request_of 2 8000) = Some user_id"
      "get_owned_document system_with_memo 1 user_id = Some doc"
      "extract_text_from_file example_env system_with_memo (d_file_path doc) (d_file_type doc)
         = Some (Some text_content)"
      "stored_events (fst (generate_timeline example_env (request_of 2 8000) 1 system_with_memo)) 1
         = extract_timeline_events_basic example_env text_content"
    by blast
  from got(1) have "user_id = 2" by (simp add: request_of_def)
  with got(2) example_memo_owned have "doc = memo_document" by simp
  with got(3) example_memo_text have "text_content = memo" by simp
  with got(4) have events:
    "stored_events (fst (generate_timeline example_env (request_of 2 8000) 1 system_with_memo)) 1
       = [(1700000000, memo, 0.7)]"
    by (simp add: example_env_def)
  from inst first same example_timeline_again
  have "stored_events
          (fst (generate_timeline example_env (request_of 2 9000) 1
                  (fst (generate_timeline example_env (request_of 2 8000) 1 system_with_memo)))) 1
        = stored_events (fst (generate_timeline example_env (request_of 2 8000) 1 system_with_memo)) 1"
    by blast
  with events have again:
    "stored_events
          (fst (generate_timeline example_env (request_of 2 9000) 1
                  (fst (generate_timeline example_env (request_of 2 8000) 1 system_with_memo)))) 1
        = [(1700000000, memo, 0.7)]"
    by (simp only:)
  have "status (snd (generate_timeline example_env (request_of 1 8000) 1 system_with_memo)) \<noteq> 200"
    unfolding example_timeline_refused by simp
  with refused_inst have unchanged:
    "timelines (fst (generate_timeline example_env (request_of 1 8000) 1 system_with_memo))
       = timelines system_with_memo"
    by blast
  show ?thesis
    by (intro conjI first events example_timeline_again again example_timeline_refused unchanged)
qed

section \<open>Redacting a social security number\<close>








































end
